theory Spec2Isabelle
  imports Complex_Main "HOL-Library.Word"
begin

unbundle bit_operations_syntax

section \<open>Values of the host language\<close>

text \<open>
  The decoders are TypeScript. A string of the program is a sequence of 16-bit code
  units, a byte read from a card or from the network is an 8-bit value. Text literals of
  the source are written \<open>js ''...''\<close>.
\<close>

type_synonym byte = "8 word"
type_synonym jschar = "16 word"
type_synonym jstring = "jschar list"

definition js :: "string \<Rightarrow> jstring" where
  "js s = map (\<lambda>c. of_char c) s"

text \<open>Template literals \<open>`${n}`\<close> of an integer: its decimal digits, with a sign.\<close>

fun show_nat :: "nat \<Rightarrow> jstring" where
  "show_nat n =
     (if n < 10 then [48 + of_nat n]
      else show_nat (n div 10) @ [48 + of_nat (n mod 10)])"

declare show_nat.simps [simp del]

definition show_int :: "int \<Rightarrow> jstring" where
  "show_int i = (if i < 0 then 45 # show_nat (nat (- i)) else show_nat (nat i))"

text \<open>\<open>s.padStart(2, "0")\<close>.\<close>

definition padStart2 :: "jstring \<Rightarrow> jstring" where
  "padStart2 s = replicate (2 - length s) 48 @ s"

text \<open>\<open>b.toString(16)\<close> of a byte: lower-case hexadecimal without leading zeros.\<close>

definition hex_digit :: "nat \<Rightarrow> jschar" where
  "hex_digit d = (if d < 10 then 48 + of_nat d else 87 + of_nat d)"

definition toString16 :: "byte \<Rightarrow> jstring" where
  "toString16 b =
     (if unat b < 16 then [hex_digit (unat b)]
      else [hex_digit (unat b div 16), hex_digit (unat b mod 16)])"

text \<open>\<open>s.toUpperCase()\<close> on the letters a to z (the only letters the decoders build).\<close>

definition toUpperCase :: "jstring \<Rightarrow> jstring" where
  "toUpperCase s = map (\<lambda>c. if 97 \<le> c \<and> c \<le> 122 then c - 32 else c) s"

text \<open>
  White space as \<open>String.prototype.trim\<close> reads it: the white-space and line-terminator
  code units of ECMAScript.
\<close>

definition is_js_space :: "jschar \<Rightarrow> bool" where
  "is_js_space c =
     (c = 9 \<or> c = 10 \<or> c = 11 \<or> c = 12 \<or> c = 13 \<or> c = 32 \<or> c = 160 \<or> c = 5760
      \<or> (8192 \<le> c \<and> c \<le> 8202) \<or> c = 8232 \<or> c = 8233 \<or> c = 8239 \<or> c = 8287
      \<or> c = 12288 \<or> c = 65279)"

definition trim :: "jstring \<Rightarrow> jstring" where
  "trim s = rev (dropWhile is_js_space (rev (dropWhile is_js_space s)))"

section \<open>Card version decoder\<close>

record DESFireInfo =
  cardType :: jstring
  manufacturer :: jstring
  capacity :: jstring
  productionDate :: jstring

text \<open>
  \<open>parseDESFireVersion\<close> of ticket.tsx. \<open>1 << storagePower\<close> is a 32-bit shift: the
  count is taken modulo 32 and the result is read as a signed integer.
\<close>

definition parseDESFireVersion :: "byte list \<Rightarrow> DESFireInfo" where
  "parseDESFireVersion versionData =
     (let hw =
            (if length versionData \<ge> 7 then
               (let hwVendor = versionData ! 0;
                    hwType = versionData ! 1;
                    hwSubType = versionData ! 2;
                    hwMajor = versionData ! 3;
                    hwMinor = versionData ! 4;
                    hwStorageSize = versionData ! 5;
                    manufacturer = (if hwVendor = 0x04 then js ''NXP Semiconductors''
                                    else js ''Unknown'');
                    cardType =
                      (if hwType = 0x01 then
                         (if hwSubType = 0x01 then js ''DESFire EV1''
                          else if hwSubType = 0x02 then js ''DESFire EV2''
                          else if hwSubType = 0x03 then js ''DESFire EV3''
                          else js ''DESFire ('' @ show_nat (unat hwMajor) @ js ''.''
                               @ show_nat (unat hwMinor) @ js '')'')
                       else js ''DESFire'');
                    storagePower = unat (drop_bit 1 hwStorageSize);
                    storageBytes = sint (push_bit (storagePower mod 32) (1 :: 32 word));
                    capacity =
                      (if storageBytes \<ge> 1024 then show_int (storageBytes div 1024) @ js '' KB''
                       else show_int storageBytes @ js '' bytes'')
                in (cardType, manufacturer, capacity))
             else (js ''DESFire'', js ''Unknown'', js ''Unknown''));
          productionDate =
            (if length versionData \<ge> 28 then
               (let prodWeek = unat (versionData ! 26);
                    prodYear = unat (versionData ! 27)
                in if prodWeek > 0 \<and> prodWeek \<le> 53 \<and> prodYear > 0 then
                     (let year = (if prodYear < 50 then 2000 + prodYear else 1900 + prodYear)
                      in js ''Week '' @ show_nat prodWeek @ js '', '' @ show_nat year)
                   else [])
             else [])
      in \<lparr> cardType = fst hw, manufacturer = fst (snd hw), capacity = snd (snd hw),
           productionDate = productionDate \<rparr>)"

section \<open>Card file decoder\<close>

datatype trips_remaining = Trips nat | Unlimited | Encrypted

datatype product_status = StatusActive | StatusExpired | StatusInactive

record ProductInfo =
  name :: jstring
  status :: "product_status option"
  validUntil :: "int option"
  trips :: "nat option"

record TicketInfo = DESFireInfo +
  cardId :: jstring
  uid :: jstring
  tripsRemaining :: trips_remaining
  activeProduct :: "ProductInfo option"
  expiredProduct :: "ProductInfo option"
  userCategory :: jstring
  isActive :: bool
  remainingTimeSeconds :: int
  expiryDate :: "jstring option"
  loadDate :: "jstring option"
  isEncrypted :: bool
  applicationId :: jstring

text \<open>
  The platform's \<open>Date\<close>, which the decoder reads but does not define: the clock
  (\<open>Date.now()\<close>, milliseconds), the local calendar fields of the instant \<open>new Date(ms)\<close>,
  and the time value of \<open>new Date(year, month, day, hours, minutes, seconds)\<close>. The local
  time zone is the platform's, so these are parameters of the model. \<open>new Date()\<close> is read
  at the same instant as \<open>Date.now()\<close>.
\<close>

record js_date =
  date_now :: int
  getFullYear :: "int \<Rightarrow> int"
  getMonth :: "int \<Rightarrow> int"
  getDate :: "int \<Rightarrow> int"
  getHours :: "int \<Rightarrow> int"
  getMinutes :: "int \<Rightarrow> int"
  getSeconds :: "int \<Rightarrow> int"
  new_Date :: "int \<Rightarrow> int \<Rightarrow> int \<Rightarrow> int \<Rightarrow> int \<Rightarrow> int \<Rightarrow> int"

text \<open>\<open>formatTimestamp\<close> of ticket.tsx: \<open>dd/mm/yyyy hh:mm:ss\<close> in local time.\<close>

definition formatTimestamp :: "js_date \<Rightarrow> int \<Rightarrow> jstring" where
  "formatTimestamp env unixTimestamp =
     (let date = unixTimestamp * 1000;
          day = padStart2 (show_int (getDate env date));
          month = padStart2 (show_int (getMonth env date + 1));
          year = show_int (getFullYear env date);
          hours = padStart2 (show_int (getHours env date));
          minutes = padStart2 (show_int (getMinutes env date));
          seconds = padStart2 (show_int (getSeconds env date))
      in day @ js ''/'' @ month @ js ''/'' @ year @ js '' '' @ hours @ js '':'' @ minutes
         @ js '':'' @ seconds)"

text \<open>The table \<open>USER_CATEGORIES\<close>; \<open>None\<close> where the object has no such key.\<close>

definition USER_CATEGORIES :: "byte \<Rightarrow> jstring option" where
  "USER_CATEGORIES b =
     (if b = 0x00 then Some (js ''Adult'')
      else if b = 0x01 then Some (js ''Adult'')
      else if b = 0x10 then Some (js ''Student'')
      else if b = 0x20 then Some (js ''Senior'')
      else if b = 0x30 then Some (js ''Adult'')
      else if b = 0x40 then Some (js ''Child'')
      else if b = 0x50 then Some (js ''Disabled'')
      else if b = 0x60 then Some (js ''Military'')
      else if b = 0x70 then Some (js ''Unemployed'')
      else if b = 0x80 then Some (js ''University student'')
      else None)"

text \<open>
  The expression
  \<open>((b0 & 0xff) | ((b1 & 0xff) << 8) | ((b2 & 0xff) << 16) | ((b3 & 0xff) << 24)) >>> 0\<close>,
  which the decoder writes out for file 12 and for both timestamps of file 16: a 32-bit
  value read as unsigned.
\<close>

definition le32 :: "byte \<Rightarrow> byte \<Rightarrow> byte \<Rightarrow> byte \<Rightarrow> nat" where
  "le32 b0 b1 b2 b3 =
     unat (((ucast b0 AND 0xff)
            OR push_bit 8 (ucast b1 AND 0xff)
            OR push_bit 16 (ucast b2 AND 0xff)
            OR push_bit 24 (ucast b3 AND 0xff)) :: 32 word)"

text \<open>
  \<open>cardNum.replace(/(.{4})/g, "$1 ")\<close>: every successive run of four characters is
  followed by a space; a shorter rest is left as it is. (The card number holds no line
  terminator, the one character \<open>.\<close> does not match.)
\<close>

fun group4 :: "jstring \<Rightarrow> jstring" where
  "group4 (a # b # c # d # rest) = a # b # c # d # 32 # group4 rest"
| "group4 rest = rest"

text \<open>
  The sections of \<open>parseAthenaTicketData\<close>, in the order of the source. Each takes the
  file map and the variables assigned so far (held in the record that is returned at the
  end) and gives them back updated.
\<close>

type_synonym file_map = "nat \<Rightarrow> byte list option"

text \<open>File 2: card id and user category.\<close>

definition parse_file2 :: "file_map \<Rightarrow> TicketInfo \<Rightarrow> TicketInfo" where
  "parse_file2 fileData t =
     (case fileData 2 of
        None \<Rightarrow> t
      | Some file2 \<Rightarrow>
          if length file2 \<ge> 20 then
            (let cardBytes = take 5 (drop 12 file2);
                 cardNum = js ''3001 0100 '' @ concat (map (\<lambda>b. padStart2 (toString16 b)) cardBytes);
                 categoryByte = file2 ! 9
             in t \<lparr> cardId := trim (group4 (toUpperCase cardNum)),
                    userCategory := (case USER_CATEGORIES categoryByte of
                                       Some c \<Rightarrow> c | None \<Rightarrow> js ''Regular'') \<rparr>)
          else t)"

text \<open>File 4: personalisation marker.\<close>

definition parse_file4 :: "file_map \<Rightarrow> TicketInfo \<Rightarrow> TicketInfo" where
  "parse_file4 fileData t =
     (case fileData 4 of
        None \<Rightarrow> t
      | Some file4 \<Rightarrow>
          if length file4 \<ge> 10 then
            (let typeCode = [ucast (file4 ! 4), ucast (file4 ! 5), ucast (file4 ! 6)] :: jstring
             in if typeCode = js ''PKP'' \<or> file4 ! 3 = 0x37 then
                  (let persCategory = file4 ! 9;
                       t1 = (if persCategory \<noteq> 0 then
                               (case USER_CATEGORIES persCategory of
                                  Some persUserCat \<Rightarrow> t \<lparr> userCategory := persUserCat \<rparr>
                                | None \<Rightarrow> t)
                             else t)
                   in if userCategory t1 = js ''Adult'' \<and> typeCode = js ''PKP''
                      then t1 \<lparr> userCategory := js ''University student'' \<rparr>
                      else t1)
                else t)
          else t)"

text \<open>File 12: the value file with the remaining trips.\<close>

definition parse_file12 :: "file_map \<Rightarrow> TicketInfo \<Rightarrow> TicketInfo" where
  "parse_file12 fileData t =
     (case fileData 12 of
        None \<Rightarrow> t
      | Some file12 \<Rightarrow>
          if length file12 \<ge> 4 then
            t \<lparr> tripsRemaining :=
                  Trips (le32 (file12 ! 0) (file12 ! 1) (file12 ! 2) (file12 ! 3)) \<rparr>
          else t)"

text \<open>
  File 16: the two product records of 32 bytes, and the fall-back for the remaining
  trips. The block of the source is split at its own comments: the first product, the
  second product (bytes 32 to 63), the fall-back.
\<close>

definition first_product :: "byte list \<Rightarrow> TicketInfo \<Rightarrow> TicketInfo" where
  "first_product file16 t =
     (let prodType = file16 ! 1;
          prod1Trips = file16 ! 16;
          isPeriodPass = (prod1Trips = 0 \<and> file16 ! 0 \<noteq> 0xff)
      in if isPeriodPass \<or> prodType = 0x31 then
           t \<lparr> activeProduct :=
                 Some \<lparr> name = js ''Monthly'', status = None, validUntil = None,
                        trips = Some 0 \<rparr>,
               tripsRemaining := Unlimited \<rparr>
         else if prod1Trips > 0 then
           t \<lparr> activeProduct :=
                 Some \<lparr> name = show_nat (unat prod1Trips) @ js '' trips'',
                        status = None, validUntil = None,
                        trips = Some (unat prod1Trips) \<rparr> \<rparr>
         else t)"

definition second_product :: "byte list \<Rightarrow> TicketInfo \<Rightarrow> TicketInfo" where
  "second_product file16 t =
     (if length file16 \<ge> 64 then
        (let prod2Type = file16 ! 33;
             prod2Trips = file16 ! (32 + 16);
             isPeriodPass2 = (prod2Trips = 0 \<and> file16 ! 32 \<noteq> 0xff)
         in if isPeriodPass2 \<or> prod2Type = 0x31 then
              t \<lparr> expiredProduct :=
                    Some \<lparr> name = js ''Monthly'', status = None, validUntil = None,
                           trips = Some 0 \<rparr> \<rparr>
            else if prod2Trips > 0 then
              t \<lparr> expiredProduct :=
                    Some \<lparr> name = show_nat (unat prod2Trips) @ js '' trips'',
                           status = None, validUntil = None,
                           trips = Some (unat prod2Trips) \<rparr> \<rparr>
            else t)
      else t)"

text \<open>
  \<open>tripsRemaining === 0 && activeProduct && activeProduct.trips && activeProduct.trips > 0\<close>:
  the test reads the count assigned so far, whichever section assigned it.
\<close>

definition trips_fallback :: "TicketInfo \<Rightarrow> TicketInfo" where
  "trips_fallback t =
     (if tripsRemaining t = Trips 0 then
        (case activeProduct t of
           None \<Rightarrow> t
         | Some p \<Rightarrow>
             (case trips p of
                None \<Rightarrow> t
              | Some n \<Rightarrow> if n > 0 then t \<lparr> tripsRemaining := Trips n \<rparr> else t))
      else t)"

definition parse_file16_products :: "file_map \<Rightarrow> TicketInfo \<Rightarrow> TicketInfo" where
  "parse_file16_products fileData t =
     (case fileData 16 of
        None \<Rightarrow> t
      | Some file16 \<Rightarrow>
          if length file16 \<ge> 32 then
            trips_fallback (second_product file16 (first_product file16 t))
          else t)"

text \<open>
  File 16 again: the load and expiry timestamps of the first product record. The
  windows \<open>x > 1420070400 && x < 2208988800\<close> are written as in the source, once for the
  raw value and once for the value moved by the card scheme's epoch. The block is split
  into the load date, the expiry of a monthly pass and the expiry of any other product.
\<close>

definition athenaEpoch :: int where
  "athenaEpoch = 852076800"

definition load_date :: "js_date \<Rightarrow> int \<Rightarrow> TicketInfo \<Rightarrow> TicketInfo" where
  "load_date env loadTimestamp t =
     (if loadTimestamp > 1420070400 \<and> loadTimestamp < 2208988800 then
        t \<lparr> loadDate := Some (formatTimestamp env loadTimestamp) \<rparr>
      else if loadTimestamp > 0 then
        (let loadUnix = athenaEpoch + loadTimestamp
         in if loadUnix > 1420070400 \<and> loadUnix < 2208988800 then
              t \<lparr> loadDate := Some (formatTimestamp env loadUnix) \<rparr>
            else t)
      else t)"

definition period_expiry :: "js_date \<Rightarrow> int \<Rightarrow> int \<Rightarrow> TicketInfo \<Rightarrow> TicketInfo" where
  "period_expiry env now loadTimestamp t =
     (let refDate = (if loadTimestamp > 1420070400 then loadTimestamp * 1000
                     else date_now env);
          endOfMonth = new_Date env (getFullYear env refDate) (getMonth env refDate + 1)
                         0 23 59 59;
          endOfMonthUnix = endOfMonth div 1000;
          t1 = t \<lparr> expiryDate := Some (formatTimestamp env endOfMonthUnix) \<rparr>
      in if endOfMonthUnix > now then
           t1 \<lparr> isActive := True, remainingTimeSeconds := endOfMonthUnix - now \<rparr>
         else t1)"

definition count_expiry :: "js_date \<Rightarrow> int \<Rightarrow> int \<Rightarrow> TicketInfo \<Rightarrow> TicketInfo" where
  "count_expiry env now expiryTimestamp t =
     (if expiryTimestamp > 1420070400 \<and> expiryTimestamp < 2208988800 then
        (let t1 = t \<lparr> expiryDate := Some (formatTimestamp env expiryTimestamp) \<rparr>
         in if expiryTimestamp > now then
              t1 \<lparr> isActive := True, remainingTimeSeconds := expiryTimestamp - now \<rparr>
            else t1)
      else if expiryTimestamp > 0 then
        (let expiryUnix = athenaEpoch + expiryTimestamp
         in if expiryUnix > 1420070400 \<and> expiryUnix < 2208988800 then
              (let t1 = t \<lparr> expiryDate := Some (formatTimestamp env expiryUnix) \<rparr>
               in if expiryUnix > now then
                    t1 \<lparr> isActive := True, remainingTimeSeconds := expiryUnix - now \<rparr>
                  else t1)
            else t)
      else t)"

definition parse_file16_timestamps :: "js_date \<Rightarrow> file_map \<Rightarrow> TicketInfo \<Rightarrow> TicketInfo" where
  "parse_file16_timestamps env fileData t =
     (case fileData 16 of
        None \<Rightarrow> t
      | Some file16 \<Rightarrow>
          if length file16 \<ge> 12 then
            (let now = date_now env div 1000;
                 prodType = file16 ! 1;
                 isPeriodPass = (prodType = 0x31);
                 loadBytes = take 4 (drop 4 file16);
                 loadTimestamp =
                   int (le32 (loadBytes ! 0) (loadBytes ! 1) (loadBytes ! 2) (loadBytes ! 3));
                 t1 = load_date env loadTimestamp t
             in if isPeriodPass then period_expiry env now loadTimestamp t1
                else
                  (let expiryBytes = take 4 (drop 8 file16);
                       expiryTimestamp =
                         int (le32 (expiryBytes ! 0) (expiryBytes ! 1) (expiryBytes ! 2)
                                (expiryBytes ! 3))
                   in count_expiry env now expiryTimestamp t1))
          else t)"

text \<open>
  \<open>parseAthenaTicketData\<close> of ticket.tsx. The optional parameters are options; \<open>data\<close> is
  only logged. A missing or false \<open>isEncrypted\<close>, a missing or empty \<open>tagId\<close> and a missing
  \<open>applicationId\<close> behave as the source's \<open>||\<close> and \<open>?:\<close> read them; the two parameters
  that share a name with a field of the result carry the suffix \<open>Arg\<close>. The variables
  the source declares before it looks at the files are the record \<open>initial_ticket\<close>.
\<close>

definition initial_ticket ::
  "jstring option \<Rightarrow> DESFireInfo option \<Rightarrow> jstring option \<Rightarrow> bool \<Rightarrow> TicketInfo" where
  "initial_ticket tagId desfireInfo applicationIdArg encrypted =
     (let versionInfo =
            (case desfireInfo of
               Some d \<Rightarrow> d
             | None \<Rightarrow> \<lparr> cardType = js ''Unknown'', manufacturer = js ''Unknown'',
                         capacity = js ''Unknown'', productionDate = [] \<rparr>);
          uid = (case tagId of Some s \<Rightarrow> s | None \<Rightarrow> [])
      in \<lparr> cardType = cardType versionInfo,
           manufacturer = manufacturer versionInfo,
           capacity = capacity versionInfo,
           productionDate = productionDate versionInfo,
           cardId = uid,
           uid = uid,
           tripsRemaining = (if encrypted then Encrypted else Trips 0),
           activeProduct = None,
           expiredProduct = None,
           userCategory = js ''Unknown'',
           isActive = False,
           remainingTimeSeconds = 0,
           expiryDate = None,
           loadDate = None,
           isEncrypted = encrypted,
           applicationId = (case applicationIdArg of Some a \<Rightarrow> a | None \<Rightarrow> []) \<rparr>)"

definition parseAthenaTicketData ::
  "js_date \<Rightarrow> byte list \<Rightarrow> jstring option \<Rightarrow> DESFireInfo option \<Rightarrow> jstring option
     \<Rightarrow> bool option \<Rightarrow> file_map option \<Rightarrow> TicketInfo" where
  "parseAthenaTicketData env data tagId desfireInfo applicationIdArg isEncryptedArg fileData =
     (let encrypted = (isEncryptedArg = Some True);
          start = initial_ticket tagId desfireInfo applicationIdArg encrypted
      in case fileData of
           None \<Rightarrow> start
         | Some files \<Rightarrow>
             if encrypted then start
             else parse_file16_timestamps env files
                    (parse_file16_products files
                      (parse_file12 files (parse_file4 files (parse_file2 files start)))))"

subsection \<open>A platform in the UTC time zone\<close>

text \<open>
  The concrete evaluations below need one platform. This one keeps local time equal to
  UTC: days are counted in the proleptic Gregorian calendar, months from 0 as
  \<open>getMonth\<close> does, and the constructor carries a month of 12 or a day of 0 over into the
  neighbouring month as \<open>MakeDay\<close> does.
\<close>

definition days_from_civil :: "int \<Rightarrow> int \<Rightarrow> int \<Rightarrow> int" where
  "days_from_civil y m d =
     (let y1 = (if m \<le> 2 then y - 1 else y);
          era = y1 div 400;
          yoe = y1 - era * 400;
          doy = (153 * (if m > 2 then m - 3 else m + 9) + 2) div 5 + d - 1;
          doe = yoe * 365 + yoe div 4 - yoe div 100 + doy
      in era * 146097 + doe - 719468)"

definition civil_from_days :: "int \<Rightarrow> int \<times> int \<times> int" where
  "civil_from_days z =
     (let z1 = z + 719468;
          era = z1 div 146097;
          doe = z1 - era * 146097;
          yoe = (doe - doe div 1460 + doe div 36524 - doe div 146096) div 365;
          doy = doe - (365 * yoe + yoe div 4 - yoe div 100);
          mp = (5 * doy + 2) div 153;
          d = doy - (153 * mp + 2) div 5 + 1;
          m = (if mp < 10 then mp + 3 else mp - 9);
          y = yoe + era * 400
      in (if m \<le> 2 then y + 1 else y, m, d))"

definition utc_new_Date :: "int \<Rightarrow> int \<Rightarrow> int \<Rightarrow> int \<Rightarrow> int \<Rightarrow> int \<Rightarrow> int" where
  "utc_new_Date y m d h mi s =
     (let yr = (if 0 \<le> y \<and> y \<le> 99 then 1900 + y else y);
          days = days_from_civil (yr + m div 12) (m mod 12 + 1) 1 + (d - 1)
      in days * 86400000 + h * 3600000 + mi * 60000 + s * 1000)"

definition utc_getFullYear :: "int \<Rightarrow> int" where
  "utc_getFullYear ms = fst (civil_from_days (ms div 86400000))"

definition utc_getMonth :: "int \<Rightarrow> int" where
  "utc_getMonth ms = fst (snd (civil_from_days (ms div 86400000))) - 1"

definition utc_getDate :: "int \<Rightarrow> int" where
  "utc_getDate ms = snd (snd (civil_from_days (ms div 86400000)))"

definition utc_getHours :: "int \<Rightarrow> int" where
  "utc_getHours ms = (ms mod 86400000) div 3600000"

definition utc_getMinutes :: "int \<Rightarrow> int" where
  "utc_getMinutes ms = (ms mod 3600000) div 60000"

definition utc_getSeconds :: "int \<Rightarrow> int" where
  "utc_getSeconds ms = (ms mod 60000) div 1000"

definition utc_date :: "int \<Rightarrow> js_date" where
  "utc_date now_ms =
     \<lparr> date_now = now_ms,
       getFullYear = utc_getFullYear,
       getMonth = utc_getMonth,
       getDate = utc_getDate,
       getHours = utc_getHours,
       getMinutes = utc_getMinutes,
       getSeconds = utc_getSeconds,
       new_Date = utc_new_Date \<rparr>"

section \<open>Tuple text parser\<close>

text \<open>
  \<open>parseTupleFormat\<close> of the Thessaloniki client runs two global regular expressions with
  \<open>exec\<close> in a loop. Each is modelled by the function that tries the expression at the head
  of the remaining text and gives the captured text and the text after the match; the
  loop moves one code unit on when there is no match at the head, and to the end of the
  match otherwise. Neither expression matches the empty text, so every step consumes
  input.

  The value expression is \<open>/"([^"]*)"|-?\d+\.?\d*|None|null/g\<close>, its alternatives tried in
  this order: a quoted string (code unit 34 on both sides, the inner text captured), a
  number (an optional minus sign, code unit 45, digits, an optional point, code unit 46,
  and further digits), and the two words.
\<close>

definition is_digit :: "jschar \<Rightarrow> bool" where
  "is_digit c = (48 \<le> c \<and> c \<le> 57)"

definition quoted_match :: "jstring \<Rightarrow> (jstring \<times> jstring) option" where
  "quoted_match text =
     (case text of
        [] \<Rightarrow> None
      | c # cs \<Rightarrow>
          if c = 34 then
            (case dropWhile (\<lambda>x. x \<noteq> 34) cs of
               [] \<Rightarrow> None
             | q # rest \<Rightarrow> Some (takeWhile (\<lambda>x. x \<noteq> 34) cs, rest))
          else None)"

text \<open>
  \<open>\d+\.?\d*\<close> after the sign: greedy, and nothing follows it in the expression, so there
  is no backtracking to model.
\<close>

definition digits_match :: "jstring \<Rightarrow> jstring \<Rightarrow> (jstring \<times> jstring) option" where
  "digits_match sign text =
     (let digits = takeWhile is_digit text;
          after_digits = dropWhile is_digit text
      in if digits = [] then None
         else (case after_digits of
                 [] \<Rightarrow> Some (sign @ digits, [])
               | c # cs \<Rightarrow>
                   if c = 46 then
                     Some (sign @ digits @ [c] @ takeWhile is_digit cs, dropWhile is_digit cs)
                   else Some (sign @ digits, after_digits)))"

text \<open>
  \<open>-?\<close>: the sign is taken when a digit follows; without one the expression is tried
  without the sign and fails on the minus itself.
\<close>

definition number_match :: "jstring \<Rightarrow> (jstring \<times> jstring) option" where
  "number_match text =
     (case text of
        [] \<Rightarrow> None
      | c # cs \<Rightarrow>
          if c = 45 \<and> cs \<noteq> [] \<and> is_digit (hd cs) then digits_match [c] cs
          else digits_match [] text)"

definition literal_match :: "jstring \<Rightarrow> (jstring \<times> jstring) option" where
  "literal_match text =
     (if take 4 text = js ''None'' \<or> take 4 text = js ''null''
      then Some (take 4 text, drop 4 text) else None)"

text \<open>
  What \<open>values.push\<close> receives for a match at the head: the captured group of a quoted
  string, the empty string for \<open>None\<close> and \<open>null\<close>, the matched text of a number.
\<close>

definition valueRegex_exec :: "jstring \<Rightarrow> (jstring \<times> jstring) option" where
  "valueRegex_exec text =
     (case quoted_match text of
        Some (inner, rest) \<Rightarrow> Some (inner, rest)
      | None \<Rightarrow>
          (case number_match text of
             Some (number, rest) \<Rightarrow> Some (number, rest)
           | None \<Rightarrow>
               (case literal_match text of
                  Some (word, rest) \<Rightarrow> Some ([], rest)
                | None \<Rightarrow> None)))"

lemma quoted_match_shorter:
  assumes "quoted_match str = Some (v, rest)"
  shows "length rest < length str"
proof (cases str)
  case Nil
  then show ?thesis using assms by (simp add: quoted_match_def)
next
  case (Cons c cs)
  then obtain q where "dropWhile (\<lambda>x. x \<noteq> 34) cs = q # rest"
    using assms by (auto simp add: quoted_match_def split: if_splits list.splits)
  then have "length rest < length (dropWhile (\<lambda>x. x \<noteq> 34) cs)"
    by simp
  also have "\<dots> \<le> length cs"
    by (rule length_dropWhile_le)
  finally show ?thesis
    using Cons by simp
qed

lemma digits_match_shorter:
  assumes "digits_match sign str = Some (v, rest)"
  shows "length rest < length str"
proof -
  have d: "takeWhile is_digit str \<noteq> []"
    using assms by (auto simp add: digits_match_def Let_def split: if_splits)
  have "length (takeWhile is_digit str) + length (dropWhile is_digit str) = length str"
    by (metis length_append takeWhile_dropWhile_id)
  moreover have "0 < length (takeWhile is_digit str)"
    using d by simp
  ultimately have a: "length (dropWhile is_digit str) < length str"
    by linarith
  have r: "length rest \<le> length (dropWhile is_digit str)"
  proof (cases "dropWhile is_digit str")
    case Nil
    then have "rest = []"
      using assms d by (simp add: digits_match_def Let_def del: dropWhile_eq_Nil_conv)
    then show ?thesis by simp
  next
    case (Cons c cs)
    show ?thesis
    proof (cases "c = 46")
      case True
      then have "rest = dropWhile is_digit cs"
        using assms d Cons by (simp add: digits_match_def Let_def)
      then have "length rest \<le> length cs"
        by (simp add: length_dropWhile_le)
      then show ?thesis using Cons by simp
    next
      case False
      then have "rest = dropWhile is_digit str"
        using assms d Cons by (simp add: digits_match_def Let_def)
      then show ?thesis by simp
    qed
  qed
  show ?thesis using a r by linarith
qed

lemma number_match_shorter:
  assumes "number_match str = Some (v, rest)"
  shows "length rest < length str"
proof (cases str)
  case Nil
  then show ?thesis using assms by (simp add: number_match_def)
next
  case (Cons c cs)
  show ?thesis
  proof (cases "c = 45 \<and> cs \<noteq> [] \<and> is_digit (hd cs)")
    case True
    then have "digits_match [c] cs = Some (v, rest)"
      using assms Cons by (simp add: number_match_def)
    then have "length rest < length cs"
      by (rule digits_match_shorter)
    then show ?thesis using Cons by simp
  next
    case False
    then have "digits_match [] str = Some (v, rest)"
      using assms Cons by (auto simp add: number_match_def)
    then show ?thesis
      by (rule digits_match_shorter)
  qed
qed

lemma literal_match_shorter:
  assumes "literal_match str = Some (v, rest)"
  shows "length rest < length str"
proof -
  have "take 4 str \<noteq> []" and r: "rest = drop 4 str"
    using assms by (auto simp add: literal_match_def js_def split: if_splits)
  then have "str \<noteq> []" by auto
  then show ?thesis using r by simp
qed

lemma valueRegex_exec_shorter:
  assumes "valueRegex_exec str = Some (v, rest)"
  shows "length rest < length str"
  using assms
  by (auto simp add: valueRegex_exec_def split: option.splits
      dest: quoted_match_shorter number_match_shorter literal_match_shorter)

function parse_values :: "jstring \<Rightarrow> jstring list" where
  "parse_values [] = []"
| "parse_values (c # cs) =
     (case valueRegex_exec (c # cs) of
        Some (v, rest) \<Rightarrow> v # parse_values rest
      | None \<Rightarrow> parse_values cs)"
  by pat_completeness auto

termination
  by (relation "measure length") (auto dest: valueRegex_exec_shorter)

text \<open>
  The tuple expression \<open>/\(([^)]+)\)/g\<close>: an opening parenthesis (code unit 40), at least
  one code unit other than the closing parenthesis (41), and the closing parenthesis.
\<close>

definition tupleRegex_exec :: "jstring \<Rightarrow> (jstring \<times> jstring) option" where
  "tupleRegex_exec text =
     (case text of
        [] \<Rightarrow> None
      | c # cs \<Rightarrow>
          if c = 40 then
            (case dropWhile (\<lambda>x. x \<noteq> 41) cs of
               [] \<Rightarrow> None
             | p # rest \<Rightarrow>
                 if takeWhile (\<lambda>x. x \<noteq> 41) cs = [] then None
                 else Some (takeWhile (\<lambda>x. x \<noteq> 41) cs, rest))
          else None)"

lemma tupleRegex_exec_shorter:
  assumes "tupleRegex_exec str = Some (v, rest)"
  shows "length rest < length str"
proof (cases str)
  case Nil
  then show ?thesis using assms by (simp add: tupleRegex_exec_def)
next
  case (Cons c cs)
  then obtain p where "dropWhile (\<lambda>x. x \<noteq> 41) cs = p # rest"
    using assms by (auto simp add: tupleRegex_exec_def split: if_splits list.splits)
  then have "length rest < length (dropWhile (\<lambda>x. x \<noteq> 41) cs)"
    by simp
  also have "\<dots> \<le> length cs"
    by (rule length_dropWhile_le)
  finally show ?thesis
    using Cons by simp
qed

function parseTupleFormat :: "jstring \<Rightarrow> jstring list list" where
  "parseTupleFormat [] = []"
| "parseTupleFormat (c # cs) =
     (case tupleRegex_exec (c # cs) of
        Some (tupleContent, rest) \<Rightarrow>
          (let values = parse_values tupleContent
           in if length values > 0 then values # parseTupleFormat rest
              else parseTupleFormat rest)
      | None \<Rightarrow> parseTupleFormat cs)"
  by pat_completeness auto

termination
  by (relation "measure length") (auto dest: tupleRegex_exec_shorter)

section \<open>Transit response decoder\<close>

text \<open>
  \<open>fetchAPI\<close> and \<open>decompressGzip\<close> of the Thessaloniki client. A computation that may
  throw (or a promise that may reject) gives \<open>Inl\<close> of the exception or \<open>Inr\<close> of its
  value, and \<open>try ... catch\<close> is the function \<open>try_catch\<close>; awaiting a promise is reading
  its outcome.
\<close>

datatype js_exception = Exception jstring

type_synonym 'a outcome = "js_exception + 'a"

definition try_catch :: "'a outcome \<Rightarrow> (js_exception \<Rightarrow> 'a outcome) \<Rightarrow> 'a outcome" where
  "try_catch body handler = (case body of Inl e \<Rightarrow> handler e | Inr v \<Rightarrow> Inr v)"

text \<open>
  The values \<open>JSON.parse\<close> can give. The decoder passes them on unchanged; a number
  is kept as the text of its literal.
\<close>

datatype json =
  JNull | JBool bool | JNumber jstring | JString jstring | JArray "json list"
  | JObject "(jstring \<times> json) list"

text \<open>
  What the decoder reads of the platform: \<open>fetch\<close> (by URL) with the fields of the
  response it uses, \<open>pako.ungzip\<close> to a string, the UTF-8 \<open>TextDecoder\<close>, and
  \<open>JSON.parse\<close>. None of them is code of the repository, so each is a parameter, and
  each may throw. \<open>pako.ungzip\<close> may also return without a result (\<open>undefined\<close>, here
  \<open>None\<close>), as it does on a stream that ends early.
\<close>

record response =
  ok :: bool
  http_status :: nat
  statusText :: jstring
  arrayBuffer :: "byte list outcome"

record platform =
  fetch :: "jstring \<Rightarrow> response outcome"
  ungzip :: "byte list \<Rightarrow> jstring option outcome"
  utf8_decode :: "byte list \<Rightarrow> jstring outcome"
  JSON_parse :: "jstring \<Rightarrow> json outcome"

text \<open>
  What \<open>fetchAPI\<close> resolves to: the rows of the tuple parser (the empty array being no
  rows), or the parsed JSON value. \<open>is_array\<close> is \<open>Array.isArray\<close>, which every caller
  applies to the result.
\<close>

datatype api_value = Rows "jstring list list" | Json json

definition is_array :: "api_value \<Rightarrow> bool" where
  "is_array v = (case v of Rows rows \<Rightarrow> True | Json (JArray xs) \<Rightarrow> True | Json j \<Rightarrow> False)"

definition BASE_URL :: jstring where
  "BASE_URL = js ''https://old.oasth.gr/el/api''"

definition buildUrl :: "jstring \<Rightarrow> jstring option \<Rightarrow> jstring" where
  "buildUrl endpoint param =
     (let path = (case param of
                    None \<Rightarrow> endpoint
                  | Some p \<Rightarrow> if p = [] then endpoint else endpoint @ js ''/'' @ p)
      in BASE_URL @ js ''/'' @ path @ js ''/?a=1'')"

text \<open>
  \<open>data[0] === 0x1f && data[1] === 0x8b\<close>; a missing element is \<open>undefined\<close>.
  \<open>decompressGzip\<close> is declared to return a string, but returns whatever \<open>pako.ungzip\<close>
  returned; \<open>decode_text\<close> is the two lines of the UTF-8 decoder, which give a string.
\<close>

definition has_gzip_magic :: "byte list \<Rightarrow> bool" where
  "has_gzip_magic data = (case data of b0 # b1 # tail \<Rightarrow> b0 = 0x1f \<and> b1 = 0x8b | _ \<Rightarrow> False)"

definition decode_text :: "platform \<Rightarrow> byte list \<Rightarrow> jstring option outcome" where
  "decode_text p data =
     (case utf8_decode p data of Inl e \<Rightarrow> Inl e | Inr text \<Rightarrow> Inr (Some text))"

definition decompressGzip :: "platform \<Rightarrow> byte list \<Rightarrow> jstring option outcome" where
  "decompressGzip p data =
     try_catch
       (if has_gzip_magic data then ungzip p data else decode_text p data)
       (\<lambda>e. decode_text p data)"

text \<open>\<open>trimmed.startsWith(c)\<close> for a single character.\<close>

definition startsWith :: "jstring \<Rightarrow> jschar \<Rightarrow> bool" where
  "startsWith s c = (case s of [] \<Rightarrow> False | x # xs \<Rightarrow> x = c)"

text \<open>
  The \<open>try\<close> block of \<open>fetchAPI\<close>, and \<open>fetchAPI\<close> itself with its \<open>catch\<close>. The inner
  \<open>try { return JSON.parse(text) } catch { }\<close> falls through to the tuple parser; \<open>!text\<close>
  holds of the empty string and of \<open>undefined\<close>.
\<close>

definition fetchAPI_try :: "platform \<Rightarrow> jstring \<Rightarrow> api_value outcome" where
  "fetchAPI_try p url =
     (case fetch p url of
        Inl e \<Rightarrow> Inl e
      | Inr response \<Rightarrow>
          if \<not> ok response then
            Inl (Exception (js ''OASTH API Error: '' @ show_nat (http_status response)
                            @ js '' '' @ statusText response))
          else
            (case arrayBuffer response of
               Inl e \<Rightarrow> Inl e
             | Inr bytes \<Rightarrow>
                 (case decompressGzip p bytes of
                    Inl e \<Rightarrow> Inl e
                  | Inr None \<Rightarrow> Inr (Rows [])
                  | Inr (Some text) \<Rightarrow>
                      if text = [] \<or> trim text = [] \<or> text = js ''null'' \<or> text = js ''[]''
                         \<or> text = js ''()''
                      then Inr (Rows [])
                      else
                        (let trimmed = trim text
                         in if startsWith trimmed 91 \<or> startsWith trimmed 123 then
                              (case JSON_parse p text of
                                 Inr parsed \<Rightarrow> Inr (Json parsed)
                               | Inl e \<Rightarrow> Inr (Rows (parseTupleFormat text)))
                            else Inr (Rows (parseTupleFormat text))))))"

definition fetchAPI :: "platform \<Rightarrow> jstring \<Rightarrow> jstring option \<Rightarrow> api_value outcome" where
  "fetchAPI p endpoint param =
     try_catch (fetchAPI_try p (buildUrl endpoint param)) (\<lambda>error. Inr (Rows []))"

text \<open>
  A platform for the concrete evaluations: the request succeeds with the given body; the
  decoder reads ASCII bytes; \<open>JSON.parse\<close> reads the text \<open>{}\<close> as the empty object (no
  other JSON text is used below); and \<open>pako.ungzip\<close> throws on a header that names a
  compression method other than 8 and returns without a result on anything else (no
  complete stream is used below).
\<close>

definition fixture_ungzip :: "byte list \<Rightarrow> jstring option outcome" where
  "fixture_ungzip data =
     (case data of
        b0 # b1 # b2 # b3 # tail \<Rightarrow>
          if b2 = 8 then Inr None else Inl (Exception (js ''unknown compression method''))
      | _ \<Rightarrow> Inr None)"

definition fixture_JSON_parse :: "jstring \<Rightarrow> json outcome" where
  "fixture_JSON_parse text =
     (if text = js ''{}'' then Inr (JObject []) else Inl (Exception (js ''SyntaxError'')))"

definition fixture_platform :: "byte list \<Rightarrow> platform" where
  "fixture_platform body =
     \<lparr> fetch = (\<lambda>url. Inr \<lparr> ok = True, http_status = 200, statusText = js ''OK'',
                             arrayBuffer = Inr body \<rparr>),
       ungzip = fixture_ungzip,
       utf8_decode = (\<lambda>data. Inr (map ucast data)),
       JSON_parse = fixture_JSON_parse \<rparr>"

section \<open>Nearest stops\<close>


text \<open>
  The computation is in the platform's floating-point numbers. Their type and operations
  are parameters: \<open>parseFloat\<close>, \<open>isNaN\<close>, the numeric literals of the source, \<open>Math.PI\<close>,
  the four operators, \<open>Math.sin\<close>, \<open>Math.cos\<close>, \<open>Math.sqrt\<close>, \<open>Math.atan2\<close>, \<open>toFixed(2)\<close>, and
  the test \<open>x > 0\<close> that \<open>sort\<close> applies to what the comparator returns. What is proved
  for every such platform does not depend on rounding.
\<close>

record 'n js_math =
  parseFloat :: "jstring \<Rightarrow> 'n"
  isNaN :: "'n \<Rightarrow> bool"
  literal :: "int \<Rightarrow> 'n"
  Math_PI :: 'n
  add :: "'n \<Rightarrow> 'n \<Rightarrow> 'n"
  sub :: "'n \<Rightarrow> 'n \<Rightarrow> 'n"
  mul :: "'n \<Rightarrow> 'n \<Rightarrow> 'n"
  divide_by :: "'n \<Rightarrow> 'n \<Rightarrow> 'n"
  Math_sin :: "'n \<Rightarrow> 'n"
  Math_cos :: "'n \<Rightarrow> 'n"
  Math_sqrt :: "'n \<Rightarrow> 'n"
  Math_atan2 :: "'n \<Rightarrow> 'n \<Rightarrow> 'n"
  toFixed2 :: "'n \<Rightarrow> jstring"
  is_positive :: "'n \<Rightarrow> bool"










subsection \<open>A platform of exact arithmetic\<close>













section \<open>Card decoders: notions and card images of the properties\<close>

subsection \<open>Notions the properties are stated with\<close>

text \<open>
  The dual-epoch reading of a raw 32-bit timestamp, stated on its own: the value itself when
  it lies strictly between 2015-01-01 and 2040-01-01 (Unix seconds 1420070400 and
  2208988800), else, when it is positive, the value counted from 1997-01-01 if that lies
  strictly between the same two instants, else nothing. It is compared below with what
  \<open>load_date\<close> and \<open>count_expiry\<close> do.
\<close>

definition dual_epoch :: "int \<Rightarrow> int option" where
  "dual_epoch t =
     (if 1420070400 < t \<and> t < 2208988800 then Some t
      else if 0 < t \<and> 1420070400 < 852076800 + t \<and> 852076800 + t < 2208988800
        then Some (852076800 + t)
      else None)"

text \<open>The two product descriptors \<open>first_product\<close> builds.\<close>

definition monthly_product :: ProductInfo where
  "monthly_product = \<lparr> name = js ''Monthly'', status = None, validUntil = None, trips = Some 0 \<rparr>"

definition count_product :: "nat \<Rightarrow> ProductInfo" where
  "count_product n =
     \<lparr> name = show_nat n @ js '' trips'', status = None, validUntil = None, trips = Some n \<rparr>"

text \<open>What file 12 contributes to the remaining trips: its value, or 0 when it is absent or short.\<close>

definition file12_value :: "file_map \<Rightarrow> nat" where
  "file12_value files =
     (case files 12 of
        None \<Rightarrow> 0
      | Some file12 \<Rightarrow>
          if 4 \<le> length file12
          then le32 (file12 ! 0) (file12 ! 1) (file12 ! 2) (file12 ! 3) else 0)"

subsection \<open>Card images used in the concrete evaluations\<close>

text \<open>
  A count-based product record (type byte \<open>0x32\<close>, 15 trips) loaded at Unix time
  1500000000 and valid until 1500005400; a monthly pass (type byte \<open>0x31\<close>); a record of
  12 bytes whose expiry field is exactly 1420070400; and the file 2 of the source's own
  comment, with bytes 12 to 16 equal to \<open>00 02 16 39 54\<close>.
\<close>

definition fixture_count_record :: "byte list" where
  "fixture_count_record =
     [0x01, 0x32, 0x00, 0x00, 0x00, 0x2F, 0x68, 0x59, 0x18, 0x44, 0x68, 0x59, 0, 0, 0, 0,
      15, 0, 0, 0, 0, 0, 0, 0, 0, 0, 0, 0, 0, 0, 0, 0]"

definition fixture_monthly_record :: "byte list" where
  "fixture_monthly_record =
     [0x01, 0x31, 0x00, 0x00, 0x00, 0x2F, 0x68, 0x59, 0, 0, 0, 0, 0, 0, 0, 0,
      0, 0, 0, 0, 0, 0, 0, 0, 0, 0, 0, 0, 0, 0, 0, 0]"

definition fixture_boundary_record :: "byte list" where
  "fixture_boundary_record =
     [0x01, 0x32, 0x00, 0x00, 0x00, 0x00, 0x00, 0x00, 0x00, 0x8E, 0xA4, 0x54]"

definition fixture_file2 :: "byte list" where
  "fixture_file2 =
     [0xb0, 0x32, 0x01, 0x83, 0x01, 0x1a, 0x01, 0x01, 0x01, 0x30, 0x01, 0x01,
      0x00, 0x02, 0x16, 0x39, 0x54, 0x00, 0x00, 0x00]"

definition fixture_files_count :: file_map where
  "fixture_files_count = map_of [(16, fixture_count_record)]"

definition fixture_files_monthly :: file_map where
  "fixture_files_monthly = map_of [(16, fixture_monthly_record)]"

definition fixture_files_zero12 :: file_map where
  "fixture_files_zero12 = map_of [(12, [0, 0, 0, 0]), (16, fixture_count_record)]"

definition fixture_files_seven12 :: file_map where
  "fixture_files_seven12 = map_of [(12, [7, 0, 0, 0]), (16, fixture_count_record)]"

definition fixture_files_boundary :: file_map where
  "fixture_files_boundary = map_of [(16, fixture_boundary_record)]"

definition fixture_files_card :: file_map where
  "fixture_files_card = map_of [(2, fixture_file2)]"

text \<open>
  Two version blocks of 28 bytes: one produced in week 10 of year byte 23, one in week 10
  of year byte 0.
\<close>

definition fixture_version_2023 :: "byte list" where
  "fixture_version_2023 =
     [0x04, 0x01, 0x01, 0x01, 0x00, 0x1A, 0x05,
      0x04, 0x01, 0x01, 0x01, 0x04, 0x1A, 0x05,
      0x04, 0xA1, 0xB2, 0xC3, 0xD4, 0xE5, 0x80,
      0xBA, 0x45, 0x12, 0x30, 0x50, 10, 23]"

definition fixture_version_2000 :: "byte list" where
  "fixture_version_2000 =
     [0x04, 0x01, 0x01, 0x01, 0x00, 0x1A, 0x05,
      0x04, 0x01, 0x01, 0x01, 0x04, 0x1A, 0x05,
      0x04, 0xA1, 0xB2, 0xC3, 0xD4, 0xE5, 0x80,
      0xBA, 0x45, 0x12, 0x30, 0x50, 10, 0]"

section \<open>Evaluation of the host functions at numerals\<close>

lemma utc_date_fields:
  "date_now (utc_date n) = n"
  "getFullYear (utc_date n) = utc_getFullYear"
  "getMonth (utc_date n) = utc_getMonth"
  "getDate (utc_date n) = utc_getDate"
  "getHours (utc_date n) = utc_getHours"
  "getMinutes (utc_date n) = utc_getMinutes"
  "getSeconds (utc_date n) = utc_getSeconds"
  "new_Date (utc_date n) = utc_new_Date"
  by (simp_all add: utc_date_def)

lemmas show_nat_numeral =
  show_nat.simps [of "numeral k" for k] show_nat.simps [of 0] show_nat.simps [of "Suc 0"]

lemmas utc_fields_eval =
  utc_getFullYear_def utc_getMonth_def utc_getDate_def utc_getHours_def utc_getMinutes_def
  utc_getSeconds_def

lemma civil_17361: "civil_from_days 17361 = (2017, 7, 14)"
  by code_simp

section \<open>Card version decoder: properties\<close>

text \<open>
  C10. A version block shorter than 7 bytes (the empty one included) decodes to card type
  "DESFire", manufacturer "Unknown", capacity "Unknown" and an empty production date.
\<close>

theorem parseDESFireVersion_short:
  assumes "length versionData < 7"
  shows "parseDESFireVersion versionData =
           \<lparr> cardType = js ''DESFire'', manufacturer = js ''Unknown'',
             capacity = js ''Unknown'', productionDate = [] \<rparr>"
  using assms by (simp add: parseDESFireVersion_def)

theorem parseDESFireVersion_short_witness:
  "length ([] :: byte list) < 7 \<and>
   parseDESFireVersion [] =
     \<lparr> cardType = js ''DESFire'', manufacturer = js ''Unknown'',
       capacity = js ''Unknown'', productionDate = [] \<rparr> \<and>
   length [0x04, 0x01, 0x01, 0x01, 0x00, 0x1A :: byte] < 7 \<and>
   cardType (parseDESFireVersion [0x04, 0x01, 0x01, 0x01, 0x00, 0x1A]) = js ''DESFire''"
  using parseDESFireVersion_short [of "[]"]
        parseDESFireVersion_short [of "[0x04, 0x01, 0x01, 0x01, 0x00, 0x1A]"]
  by simp

lemma productionDate_cases:
  assumes "28 \<le> length versionData"
  shows "productionDate (parseDESFireVersion versionData) =
           (if 0 < unat (versionData ! 26) \<and> unat (versionData ! 26) \<le> 53 \<and>
               0 < unat (versionData ! 27)
            then js ''Week '' @ show_nat (unat (versionData ! 26)) @ js '', '' @
                 show_nat (if unat (versionData ! 27) < 50 then 2000 + unat (versionData ! 27)
                           else 1900 + unat (versionData ! 27))
            else [])"
  using assms by (simp add: parseDESFireVersion_def Let_def)

text \<open>
  C9, as the code has it. For a version block of at least 28 bytes the production date is
  "Week w, y", with \<open>w\<close> byte 26 and \<open>y\<close> the year 2000 + byte 27 when byte 27 is below 50 and
  1900 + byte 27 otherwise, whenever \<open>w\<close> lies in 1 to 53 and byte 27 is not 0; a week of 0
  or above 53, and also a year byte of 0, leave the field empty.
\<close>

theorem production_date_field:
  assumes "28 \<le> length versionData"
  shows "productionDate (parseDESFireVersion versionData) =
           (if 1 \<le> unat (versionData ! 26) \<and> unat (versionData ! 26) \<le> 53 \<and>
               versionData ! 27 \<noteq> 0
            then js ''Week '' @ show_nat (unat (versionData ! 26)) @ js '', '' @
                 show_nat (if unat (versionData ! 27) < 50 then 2000 + unat (versionData ! 27)
                           else 1900 + unat (versionData ! 27))
            else [])"
proof -
  have "(1 \<le> unat (versionData ! 26) \<and> unat (versionData ! 26) \<le> 53 \<and>
          versionData ! 27 \<noteq> 0) =
        (0 < unat (versionData ! 26) \<and> unat (versionData ! 26) \<le> 53 \<and>
          0 < unat (versionData ! 27))"
    by (simp add: unat_gt_0 Suc_le_eq)
  then show ?thesis
    by (simp only: productionDate_cases [OF assms])
qed

theorem production_date_field_witness:
  "28 \<le> length fixture_version_2023 \<and>
   fixture_version_2023 ! 26 = 10 \<and> fixture_version_2023 ! 27 = 23 \<and>
   productionDate (parseDESFireVersion fixture_version_2023) = js ''Week 10, 2023''"
proof -
  have l: "28 \<le> length fixture_version_2023"
    by (simp add: fixture_version_2023_def)
  have b: "fixture_version_2023 ! 26 = 10" "fixture_version_2023 ! 27 = 23"
    by (simp_all add: fixture_version_2023_def)
  have s: "show_nat 10 = js ''10''" "show_nat 2023 = js ''2023''"
    by (simp_all add: show_nat_numeral js_def)
  show ?thesis
    using production_date_field [OF l] l
    by (simp add: b s js_def)
qed

text \<open>
  The specification gives a date for every week from 1 to 53. With week 10 and a year byte of 0
  (the year 2000) the decoder leaves the field empty: the source also requires
  \<open>prodYear > 0\<close>.
\<close>

theorem production_year_zero_counterexample:
  "28 \<le> length fixture_version_2000 \<and>
   unat (fixture_version_2000 ! 26) = 10 \<and> unat (fixture_version_2000 ! 27) = 0 \<and>
   productionDate (parseDESFireVersion fixture_version_2000) = [] \<and>
   productionDate (parseDESFireVersion fixture_version_2000) \<noteq> js ''Week 10, 2000''"
proof -
  have l: "28 \<le> length fixture_version_2000"
    by (simp add: fixture_version_2000_def)
  have b: "fixture_version_2000 ! 26 = 10" "fixture_version_2000 ! 27 = 0"
    by (simp_all add: fixture_version_2000_def)
  have "productionDate (parseDESFireVersion fixture_version_2000) = []"
    using productionDate_cases [OF l] by (simp add: b)
  then show ?thesis using l by (simp add: b js_def)
qed

section \<open>Card file decoder: what each section leaves alone\<close>

lemma parse_file2_frame:
  "tripsRemaining (parse_file2 f t) = tripsRemaining t"
  "activeProduct (parse_file2 f t) = activeProduct t"
  "expiredProduct (parse_file2 f t) = expiredProduct t"
  "expiryDate (parse_file2 f t) = expiryDate t"
  "loadDate (parse_file2 f t) = loadDate t"
  "isActive (parse_file2 f t) = isActive t"
  "remainingTimeSeconds (parse_file2 f t) = remainingTimeSeconds t"
  by (simp_all add: parse_file2_def Let_def split: option.splits)

lemma parse_file4_frame:
  "tripsRemaining (parse_file4 f t) = tripsRemaining t"
  "activeProduct (parse_file4 f t) = activeProduct t"
  "expiredProduct (parse_file4 f t) = expiredProduct t"
  "expiryDate (parse_file4 f t) = expiryDate t"
  "loadDate (parse_file4 f t) = loadDate t"
  "cardId (parse_file4 f t) = cardId t"
  "isActive (parse_file4 f t) = isActive t"
  "remainingTimeSeconds (parse_file4 f t) = remainingTimeSeconds t"
  by (simp_all add: parse_file4_def Let_def split: option.splits)

lemma parse_file12_frame:
  "activeProduct (parse_file12 f t) = activeProduct t"
  "expiredProduct (parse_file12 f t) = expiredProduct t"
  "expiryDate (parse_file12 f t) = expiryDate t"
  "loadDate (parse_file12 f t) = loadDate t"
  "cardId (parse_file12 f t) = cardId t"
  "isActive (parse_file12 f t) = isActive t"
  "remainingTimeSeconds (parse_file12 f t) = remainingTimeSeconds t"
  by (simp_all add: parse_file12_def Let_def split: option.splits)

lemma first_product_frame:
  "expiryDate (first_product f t) = expiryDate t"
  "loadDate (first_product f t) = loadDate t"
  "cardId (first_product f t) = cardId t"
  "isActive (first_product f t) = isActive t"
  "remainingTimeSeconds (first_product f t) = remainingTimeSeconds t"
  "expiredProduct (first_product f t) = expiredProduct t"
  by (simp_all add: first_product_def Let_def)

lemma second_product_frame:
  "expiryDate (second_product f t) = expiryDate t"
  "loadDate (second_product f t) = loadDate t"
  "cardId (second_product f t) = cardId t"
  "isActive (second_product f t) = isActive t"
  "remainingTimeSeconds (second_product f t) = remainingTimeSeconds t"
  "activeProduct (second_product f t) = activeProduct t"
  "tripsRemaining (second_product f t) = tripsRemaining t"
  by (simp_all add: second_product_def Let_def)

lemma trips_fallback_frame:
  "expiryDate (trips_fallback t) = expiryDate t"
  "loadDate (trips_fallback t) = loadDate t"
  "cardId (trips_fallback t) = cardId t"
  "isActive (trips_fallback t) = isActive t"
  "remainingTimeSeconds (trips_fallback t) = remainingTimeSeconds t"
  "activeProduct (trips_fallback t) = activeProduct t"
  "expiredProduct (trips_fallback t) = expiredProduct t"
  by (simp_all add: trips_fallback_def split: option.splits)

lemma parse_file16_products_frame:
  "expiryDate (parse_file16_products f t) = expiryDate t"
  "loadDate (parse_file16_products f t) = loadDate t"
  "cardId (parse_file16_products f t) = cardId t"
  "isActive (parse_file16_products f t) = isActive t"
  "remainingTimeSeconds (parse_file16_products f t) = remainingTimeSeconds t"
  by (simp_all add: parse_file16_products_def first_product_frame second_product_frame
        trips_fallback_frame split: option.splits)

lemma load_date_frame:
  "tripsRemaining (load_date env l t) = tripsRemaining t"
  "activeProduct (load_date env l t) = activeProduct t"
  "expiredProduct (load_date env l t) = expiredProduct t"
  "cardId (load_date env l t) = cardId t"
  "expiryDate (load_date env l t) = expiryDate t"
  by (simp_all add: load_date_def Let_def)

lemma period_expiry_frame:
  "tripsRemaining (period_expiry env n l t) = tripsRemaining t"
  "activeProduct (period_expiry env n l t) = activeProduct t"
  "expiredProduct (period_expiry env n l t) = expiredProduct t"
  "cardId (period_expiry env n l t) = cardId t"
  "loadDate (period_expiry env n l t) = loadDate t"
  by (simp_all add: period_expiry_def Let_def)

lemma count_expiry_frame:
  "tripsRemaining (count_expiry env n l t) = tripsRemaining t"
  "activeProduct (count_expiry env n l t) = activeProduct t"
  "expiredProduct (count_expiry env n l t) = expiredProduct t"
  "cardId (count_expiry env n l t) = cardId t"
  "loadDate (count_expiry env n l t) = loadDate t"
  by (simp_all add: count_expiry_def Let_def)

lemma parse_file16_timestamps_frame:
  "tripsRemaining (parse_file16_timestamps env f t) = tripsRemaining t"
  "activeProduct (parse_file16_timestamps env f t) = activeProduct t"
  "expiredProduct (parse_file16_timestamps env f t) = expiredProduct t"
  "cardId (parse_file16_timestamps env f t) = cardId t"
  by (simp_all add: parse_file16_timestamps_def Let_def load_date_frame period_expiry_frame
        count_expiry_frame split: option.splits)

lemma initial_ticket_fields:
  "cardId (initial_ticket tagId info appId enc) = (case tagId of Some s \<Rightarrow> s | None \<Rightarrow> [])"
  "uid (initial_ticket tagId info appId enc) = (case tagId of Some s \<Rightarrow> s | None \<Rightarrow> [])"
  "tripsRemaining (initial_ticket tagId info appId enc) = (if enc then Encrypted else Trips 0)"
  "activeProduct (initial_ticket tagId info appId enc) = None"
  "expiredProduct (initial_ticket tagId info appId enc) = None"
  "userCategory (initial_ticket tagId info appId enc) = js ''Unknown''"
  "isActive (initial_ticket tagId info appId enc) = False"
  "remainingTimeSeconds (initial_ticket tagId info appId enc) = 0"
  "expiryDate (initial_ticket tagId info appId enc) = None"
  "loadDate (initial_ticket tagId info appId enc) = None"
  by (simp_all add: initial_ticket_def Let_def)

lemma parseAthenaTicketData_plain:
  assumes "isEnc \<noteq> Some True"
  shows "parseAthenaTicketData env data tagId info appId isEnc (Some files) =
           parse_file16_timestamps env files
             (parse_file16_products files
               (parse_file12 files (parse_file4 files (parse_file2 files
                 (initial_ticket tagId info appId False)))))"
  using assms by (simp add: parseAthenaTicketData_def)

lemma parseAthenaTicketData_locked:
  "parseAthenaTicketData env data tagId info appId (Some True) fileData =
     initial_ticket tagId info appId True"
  by (simp add: parseAthenaTicketData_def Let_def split: option.splits)

lemma tripsRemaining_parse_file12:
  "tripsRemaining (parse_file12 files t) =
     (case files 12 of
        None \<Rightarrow> tripsRemaining t
      | Some file12 \<Rightarrow>
          if 4 \<le> length file12
          then Trips (le32 (file12 ! 0) (file12 ! 1) (file12 ! 2) (file12 ! 3))
          else tripsRemaining t)"
  by (simp add: parse_file12_def split: option.splits)

lemma first_product_period:
  assumes "(file16 ! 16 = 0 \<and> file16 ! 0 \<noteq> 0xff) \<or> file16 ! 1 = 0x31"
  shows "first_product file16 t =
           t \<lparr> activeProduct := Some monthly_product, tripsRemaining := Unlimited \<rparr>"
  using assms by (simp add: first_product_def monthly_product_def Let_def)

lemma first_product_count:
  assumes "\<not> ((file16 ! 16 = 0 \<and> file16 ! 0 \<noteq> 0xff) \<or> file16 ! 1 = 0x31)"
    and "0 < file16 ! 16"
  shows "first_product file16 t =
           t \<lparr> activeProduct := Some (count_product (unat (file16 ! 16))) \<rparr>"
  using assms by (auto simp add: first_product_def count_product_def Let_def word_greater_zero_iff)

lemma first_product_none:
  assumes "\<not> ((file16 ! 16 = 0 \<and> file16 ! 0 \<noteq> 0xff) \<or> file16 ! 1 = 0x31)"
    and "\<not> 0 < file16 ! 16"
  shows "first_product file16 t = t"
  using assms by (auto simp add: first_product_def Let_def word_greater_zero_iff)

lemma trips_fallback_unlimited:
  "tripsRemaining t = Unlimited \<Longrightarrow> tripsRemaining (trips_fallback t) = Unlimited"
  by (simp add: trips_fallback_def)

lemma trips_fallback_count:
  assumes "activeProduct t = Some (count_product n)" "0 < n"
  shows "tripsRemaining (trips_fallback t) =
           (if tripsRemaining t = Trips 0 then Trips n else tripsRemaining t)"
  using assms by (simp add: trips_fallback_def count_product_def)

lemma trips_fallback_no_product:
  assumes "activeProduct t = None"
  shows "tripsRemaining (trips_fallback t) = tripsRemaining t"
  using assms by (simp add: trips_fallback_def)

lemma before_products:
  "tripsRemaining (parse_file12 files (parse_file4 files (parse_file2 files
       (initial_ticket tagId info appId False)))) = Trips (file12_value files)"
  "activeProduct (parse_file12 files (parse_file4 files (parse_file2 files
       (initial_ticket tagId info appId False)))) = None"
  by (simp_all add: tripsRemaining_parse_file12 file12_value_def parse_file12_frame
        parse_file4_frame parse_file2_frame initial_ticket_fields split: option.splits)

lemma products_short:
  assumes "isEnc \<noteq> Some True"
    and "files 16 = None \<or> (\<exists>file16. files 16 = Some file16 \<and> length file16 < 32)"
  shows "tripsRemaining (parseAthenaTicketData env data tagId info appId isEnc (Some files))
           = Trips (file12_value files)"
    and "activeProduct (parseAthenaTicketData env data tagId info appId isEnc (Some files))
           = None"
  using assms
  by (auto simp add: parseAthenaTicketData_plain parse_file16_timestamps_frame
        parse_file16_products_def before_products)

lemma products_period:
  assumes "isEnc \<noteq> Some True" "files 16 = Some file16" "32 \<le> length file16"
    and "(file16 ! 16 = 0 \<and> file16 ! 0 \<noteq> 0xff) \<or> file16 ! 1 = 0x31"
  shows "tripsRemaining (parseAthenaTicketData env data tagId info appId isEnc (Some files))
           = Unlimited"
    and "activeProduct (parseAthenaTicketData env data tagId info appId isEnc (Some files))
           = Some monthly_product"
  using assms(1-3)
  by (simp_all add: parseAthenaTicketData_plain parse_file16_timestamps_frame
        parse_file16_products_def first_product_period [OF assms(4)] trips_fallback_frame
        second_product_frame trips_fallback_unlimited)

lemma products_count:
  assumes "isEnc \<noteq> Some True" "files 16 = Some file16" "32 \<le> length file16"
    and "\<not> ((file16 ! 16 = 0 \<and> file16 ! 0 \<noteq> 0xff) \<or> file16 ! 1 = 0x31)"
    and "0 < file16 ! 16"
  shows "tripsRemaining (parseAthenaTicketData env data tagId info appId isEnc (Some files))
           = (if file12_value files = 0 then Trips (unat (file16 ! 16))
              else Trips (file12_value files))"
    and "activeProduct (parseAthenaTicketData env data tagId info appId isEnc (Some files))
           = Some (count_product (unat (file16 ! 16)))"
proof -
  let ?t0 = "parse_file12 files (parse_file4 files (parse_file2 files
       (initial_ticket tagId info appId False)))"
  let ?t2 = "second_product file16 (first_product file16 ?t0)"
  have n: "0 < unat (file16 ! 16)"
    using assms(5) by (simp add: word_greater_zero_iff unat_gt_0)
  have a: "activeProduct ?t2 = Some (count_product (unat (file16 ! 16)))"
    by (simp add: second_product_frame first_product_count [OF assms(4,5)])
  have r: "tripsRemaining ?t2 = Trips (file12_value files)"
    by (simp add: second_product_frame first_product_count [OF assms(4,5)] before_products)
  show "tripsRemaining (parseAthenaTicketData env data tagId info appId isEnc (Some files))
           = (if file12_value files = 0 then Trips (unat (file16 ! 16))
              else Trips (file12_value files))"
    using assms(1-3)
    by (simp add: parseAthenaTicketData_plain parse_file16_timestamps_frame
          parse_file16_products_def trips_fallback_count [OF a n] r)
  show "activeProduct (parseAthenaTicketData env data tagId info appId isEnc (Some files))
           = Some (count_product (unat (file16 ! 16)))"
    using assms(1-3)
    by (simp add: parseAthenaTicketData_plain parse_file16_timestamps_frame
          parse_file16_products_def trips_fallback_frame a)
qed

lemma products_empty:
  assumes "isEnc \<noteq> Some True" "files 16 = Some file16" "32 \<le> length file16"
    and "\<not> ((file16 ! 16 = 0 \<and> file16 ! 0 \<noteq> 0xff) \<or> file16 ! 1 = 0x31)"
    and "\<not> 0 < file16 ! 16"
  shows "tripsRemaining (parseAthenaTicketData env data tagId info appId isEnc (Some files))
           = Trips (file12_value files)"
  using assms(1-3)
  by (simp add: parseAthenaTicketData_plain parse_file16_timestamps_frame
        parse_file16_products_def first_product_none [OF assms(4,5)] second_product_frame
        trips_fallback_no_product before_products)

section \<open>Card file decoder: properties\<close>

text \<open>
  C1. With the encryption flag set, whatever the file map holds (or when none is given), the
  decoder reports the remaining trips as "encrypted" and leaves every file-derived field
  at its default: the card id is the UID, the user category "Unknown", no active and no
  expired product, not active, no remaining time, no expiry date and no load date.
\<close>

theorem encrypted_ticket_defaults:
  "tripsRemaining (parseAthenaTicketData env data tagId info appId (Some True) fileData) = Encrypted \<and>
   cardId (parseAthenaTicketData env data tagId info appId (Some True) fileData)
     = uid (parseAthenaTicketData env data tagId info appId (Some True) fileData) \<and>
   uid (parseAthenaTicketData env data tagId info appId (Some True) fileData)
     = (case tagId of Some s \<Rightarrow> s | None \<Rightarrow> []) \<and>
   userCategory (parseAthenaTicketData env data tagId info appId (Some True) fileData) = js ''Unknown'' \<and>
   activeProduct (parseAthenaTicketData env data tagId info appId (Some True) fileData) = None \<and>
   expiredProduct (parseAthenaTicketData env data tagId info appId (Some True) fileData) = None \<and>
   isActive (parseAthenaTicketData env data tagId info appId (Some True) fileData) = False \<and>
   remainingTimeSeconds (parseAthenaTicketData env data tagId info appId (Some True) fileData) = 0 \<and>
   expiryDate (parseAthenaTicketData env data tagId info appId (Some True) fileData) = None \<and>
   loadDate (parseAthenaTicketData env data tagId info appId (Some True) fileData) = None"
  by (simp add: parseAthenaTicketData_locked initial_ticket_fields)

theorem encrypted_ticket_defaults_witness:
  "tripsRemaining (parseAthenaTicketData (utc_date 1500001000000) [] (Some (js ''04A1B2C3''))
      None None (Some True) (Some fixture_files_monthly)) = Encrypted \<and>
   cardId (parseAthenaTicketData (utc_date 1500001000000) [] (Some (js ''04A1B2C3''))
      None None (Some True) (Some fixture_files_monthly)) = js ''04A1B2C3'' \<and>
   activeProduct (parseAthenaTicketData (utc_date 1500001000000) [] (Some (js ''04A1B2C3''))
      None None (Some True) (Some fixture_files_monthly)) = None \<and>
   tripsRemaining (parseAthenaTicketData (utc_date 1500001000000) [] (Some (js ''04A1B2C3''))
      None None None (Some fixture_files_monthly)) = Unlimited"
proof -
  have "fixture_files_monthly 16 = Some fixture_monthly_record"
    by (simp add: fixture_files_monthly_def)
  moreover have "32 \<le> length fixture_monthly_record"
    by (simp add: fixture_monthly_record_def)
  moreover have "(fixture_monthly_record ! 16 = 0 \<and> fixture_monthly_record ! 0 \<noteq> 0xff)
      \<or> fixture_monthly_record ! 1 = 0x31"
    by (simp add: fixture_monthly_record_def)
  ultimately have "tripsRemaining (parseAthenaTicketData (utc_date 1500001000000) []
      (Some (js ''04A1B2C3'')) None None None (Some fixture_files_monthly)) = Unlimited"
    by (intro products_period) simp_all
  then show ?thesis
    using encrypted_ticket_defaults [of "utc_date 1500001000000" "[]" "Some (js ''04A1B2C3'')"
        None None "Some fixture_files_monthly"]
    by simp
qed

lemma load_date_dual:
  "loadDate (load_date env l t) =
     (case dual_epoch l of Some u \<Rightarrow> Some (formatTimestamp env u) | None \<Rightarrow> loadDate t)"
  by (auto simp add: load_date_def dual_epoch_def athenaEpoch_def Let_def)

lemma count_expiry_dual:
  "expiryDate (count_expiry env now e t) =
     (case dual_epoch e of Some u \<Rightarrow> Some (formatTimestamp env u) | None \<Rightarrow> expiryDate t)"
  by (auto simp add: count_expiry_def dual_epoch_def athenaEpoch_def Let_def)

lemma timestamps_count:
  assumes "isEnc \<noteq> Some True" "files 16 = Some file16" "12 \<le> length file16"
    and "file16 ! 1 \<noteq> 0x31"
  shows "expiryDate (parseAthenaTicketData env data tagId info appId isEnc (Some files)) =
           map_option (formatTimestamp env)
             (dual_epoch (int (le32 (file16 ! 8) (file16 ! 9) (file16 ! 10) (file16 ! 11))))"
    and "loadDate (parseAthenaTicketData env data tagId info appId isEnc (Some files)) =
           map_option (formatTimestamp env)
             (dual_epoch (int (le32 (file16 ! 4) (file16 ! 5) (file16 ! 6) (file16 ! 7))))"
  using assms
  by (simp_all add: parseAthenaTicketData_plain parse_file16_timestamps_def Let_def
        count_expiry_dual count_expiry_frame load_date_dual load_date_frame
        parse_file16_products_frame parse_file12_frame parse_file4_frame parse_file2_frame
        initial_ticket_fields split: option.splits)

text \<open>
  C5, as the code has it. For a product record of file 16 whose type byte is not that of
  the monthly pass, the expiry date is the formatted instant that the dual-epoch reading
  gives for the unsigned little-endian integer of bytes 8 to 11, and it stays null when
  that reading gives nothing; the load date is the same reading of bytes 4 to 7. Both
  bounds of the window are excluded: 1420070400 itself is not accepted.
\<close>

theorem count_product_timestamps:
  assumes "isEnc \<noteq> Some True" and "files 16 = Some file16" and "12 \<le> length file16"
    and "file16 ! 1 \<noteq> 0x31"
  shows "expiryDate (parseAthenaTicketData env data tagId info appId isEnc (Some files)) =
           map_option (formatTimestamp env)
             (dual_epoch (int (le32 (file16 ! 8) (file16 ! 9) (file16 ! 10) (file16 ! 11)))) \<and>
         loadDate (parseAthenaTicketData env data tagId info appId isEnc (Some files)) =
           map_option (formatTimestamp env)
             (dual_epoch (int (le32 (file16 ! 4) (file16 ! 5) (file16 ! 6) (file16 ! 7))))"
  using timestamps_count(1) [of isEnc files file16, OF assms]
    timestamps_count(2) [of isEnc files file16, OF assms] by simp

theorem count_product_timestamps_witness:
  "None \<noteq> Some True \<and> fixture_files_count 16 = Some fixture_count_record \<and>
   12 \<le> length fixture_count_record \<and> fixture_count_record ! 1 \<noteq> 0x31 \<and>
   expiryDate (parseAthenaTicketData (utc_date 1500001000000) [] None None None None
      (Some fixture_files_count)) = Some (js ''14/07/2017 04:10:00'') \<and>
   loadDate (parseAthenaTicketData (utc_date 1500001000000) [] None None None None
      (Some fixture_files_count)) = Some (js ''14/07/2017 02:40:00'')"
proof -
  have f: "fixture_files_count 16 = Some fixture_count_record"
    by (simp add: fixture_files_count_def)
  have l: "12 \<le> length fixture_count_record"
    by (simp add: fixture_count_record_def)
  have p: "fixture_count_record ! 1 \<noteq> 0x31"
    by (simp add: fixture_count_record_def)
  have e: "int (le32 (fixture_count_record ! 8) (fixture_count_record ! 9)
      (fixture_count_record ! 10) (fixture_count_record ! 11)) = 1500005400"
    by (simp add: fixture_count_record_def le32_def)
  have d: "int (le32 (fixture_count_record ! 4) (fixture_count_record ! 5)
      (fixture_count_record ! 6) (fixture_count_record ! 7)) = 1500000000"
    by (simp add: fixture_count_record_def le32_def)
  have fe: "formatTimestamp (utc_date 1500001000000) 1500005400 = js ''14/07/2017 04:10:00''"
    by (simp add: formatTimestamp_def utc_date_fields utc_fields_eval civil_17361 Let_def
          show_int_def show_nat_numeral padStart2_def js_def)
  have fl: "formatTimestamp (utc_date 1500001000000) 1500000000 = js ''14/07/2017 02:40:00''"
    by (simp add: formatTimestamp_def utc_date_fields utc_fields_eval civil_17361 Let_def
          show_int_def show_nat_numeral padStart2_def js_def)
  show ?thesis
    using count_product_timestamps [of None fixture_files_count fixture_count_record
        "utc_date 1500001000000" "[]" None None None, OF _ f l p] f l p
    by (simp add: e d fe fl dual_epoch_def)
qed

text \<open>
  The window of the specification includes its lower end. A record whose expiry field is exactly
  1420070400 (2015-01-01 00:00:00 UTC) gets no expiry date: the raw value fails the strict
  test, and moved by the card epoch it lies after 2040.
\<close>

theorem window_lower_bound_counterexample:
  "int (le32 (fixture_boundary_record ! 8) (fixture_boundary_record ! 9)
      (fixture_boundary_record ! 10) (fixture_boundary_record ! 11)) = 1420070400 \<and>
   fixture_boundary_record ! 1 = 0x32 \<and>
   expiryDate (parseAthenaTicketData (utc_date 1500001000000) [] None None None None
      (Some fixture_files_boundary)) = None"
proof -
  have f: "fixture_files_boundary 16 = Some fixture_boundary_record"
    by (simp add: fixture_files_boundary_def)
  have l: "12 \<le> length fixture_boundary_record"
    by (simp add: fixture_boundary_record_def)
  have p: "fixture_boundary_record ! 1 \<noteq> 0x31"
    by (simp add: fixture_boundary_record_def)
  have e: "int (le32 (fixture_boundary_record ! 8) (fixture_boundary_record ! 9)
      (fixture_boundary_record ! 10) (fixture_boundary_record ! 11)) = 1420070400"
    by (simp add: fixture_boundary_record_def le32_def)
  have "expiryDate (parseAthenaTicketData (utc_date 1500001000000) [] None None None None
      (Some fixture_files_boundary)) = None"
    using timestamps_count(1) [of None fixture_files_boundary fixture_boundary_record
        "utc_date 1500001000000" "[]" None None None, OF _ f l p]
    by (simp add: e dual_epoch_def)
  moreover have "fixture_boundary_record ! 1 = 0x32"
    by (simp add: fixture_boundary_record_def)
  ultimately show ?thesis using e by simp
qed

text \<open>
  C6. On an unencrypted read with a file 16 of at least 32 bytes: when the type byte
  (offset 1) is \<open>0x31\<close>, or the trip-count byte (offset 16) is 0 and the first byte is not
  \<open>0xFF\<close>, the active product is "Monthly" and the remaining trips are "unlimited";
  otherwise a positive trip-count byte \<open>n\<close> gives the active product "n trips" with
  \<open>n\<close> trips, and without a file 12 the remaining trips are \<open>n\<close>.
\<close>

theorem first_product_record:
  assumes "isEnc \<noteq> Some True" and "files 16 = Some file16" and "32 \<le> length file16"
  shows "(file16 ! 1 = 0x31 \<or> (file16 ! 16 = 0 \<and> file16 ! 0 \<noteq> 0xff) \<longrightarrow>
            activeProduct (parseAthenaTicketData env data tagId info appId isEnc (Some files))
              = Some \<lparr> name = js ''Monthly'', status = None, validUntil = None,
                       trips = Some 0 \<rparr> \<and>
            tripsRemaining (parseAthenaTicketData env data tagId info appId isEnc (Some files))
              = Unlimited) \<and>
         (\<not> (file16 ! 1 = 0x31 \<or> (file16 ! 16 = 0 \<and> file16 ! 0 \<noteq> 0xff)) \<and>
          0 < file16 ! 16 \<longrightarrow>
            activeProduct (parseAthenaTicketData env data tagId info appId isEnc (Some files))
              = Some \<lparr> name = show_nat (unat (file16 ! 16)) @ js '' trips'', status = None,
                       validUntil = None, trips = Some (unat (file16 ! 16)) \<rparr> \<and>
            (files 12 = None \<longrightarrow>
               tripsRemaining
                 (parseAthenaTicketData env data tagId info appId isEnc (Some files))
                 = Trips (unat (file16 ! 16))))"
proof (intro conjI impI)
  assume p: "file16 ! 1 = 0x31 \<or> (file16 ! 16 = 0 \<and> file16 ! 0 \<noteq> 0xff)"
  then have p': "(file16 ! 16 = 0 \<and> file16 ! 0 \<noteq> 0xff) \<or> file16 ! 1 = 0x31"
    by blast
  show "activeProduct (parseAthenaTicketData env data tagId info appId isEnc (Some files))
          = Some \<lparr> name = js ''Monthly'', status = None, validUntil = None, trips = Some 0 \<rparr>"
    using products_period(2) [of isEnc files file16, OF assms p']
    by (simp add: monthly_product_def)
  show "tripsRemaining (parseAthenaTicketData env data tagId info appId isEnc (Some files))
          = Unlimited"
    using products_period(1) [of isEnc files file16, OF assms p'] .
next
  assume c: "\<not> (file16 ! 1 = 0x31 \<or> (file16 ! 16 = 0 \<and> file16 ! 0 \<noteq> 0xff)) \<and>
             0 < file16 ! 16"
  then have np: "\<not> ((file16 ! 16 = 0 \<and> file16 ! 0 \<noteq> 0xff) \<or> file16 ! 1 = 0x31)"
    and pos: "0 < file16 ! 16"
    by blast+
  show "activeProduct (parseAthenaTicketData env data tagId info appId isEnc (Some files))
          = Some \<lparr> name = show_nat (unat (file16 ! 16)) @ js '' trips'', status = None,
                   validUntil = None, trips = Some (unat (file16 ! 16)) \<rparr>"
    using products_count(2) [of isEnc files file16, OF assms np pos]
    by (simp add: count_product_def)
  assume "files 12 = None"
  then have "file12_value files = 0"
    by (simp add: file12_value_def)
  then show "tripsRemaining (parseAthenaTicketData env data tagId info appId isEnc (Some files))
          = Trips (unat (file16 ! 16))"
    using products_count(1) [of isEnc files file16, OF assms np pos] by simp
qed

theorem first_product_record_witness:
  "fixture_files_monthly 16 = Some fixture_monthly_record \<and>
   32 \<le> length fixture_monthly_record \<and> fixture_monthly_record ! 1 = 0x31 \<and>
   activeProduct (parseAthenaTicketData (utc_date 1500001000000) [] None None None None
       (Some fixture_files_monthly))
     = Some \<lparr> name = js ''Monthly'', status = None, validUntil = None, trips = Some 0 \<rparr> \<and>
   tripsRemaining (parseAthenaTicketData (utc_date 1500001000000) [] None None None None
       (Some fixture_files_monthly)) = Unlimited \<and>
   fixture_files_count 16 = Some fixture_count_record \<and>
   32 \<le> length fixture_count_record \<and> fixture_count_record ! 1 = 0x32 \<and>
   fixture_count_record ! 16 = 15 \<and> fixture_files_count 12 = None \<and>
   activeProduct (parseAthenaTicketData (utc_date 1500001000000) [] None None None None
       (Some fixture_files_count))
     = Some \<lparr> name = js ''15 trips'', status = None, validUntil = None, trips = Some 15 \<rparr> \<and>
   tripsRemaining (parseAthenaTicketData (utc_date 1500001000000) [] None None None None
       (Some fixture_files_count)) = Trips 15"
proof -
  have m: "fixture_files_monthly 16 = Some fixture_monthly_record"
    "32 \<le> length fixture_monthly_record"
    by (simp_all add: fixture_files_monthly_def fixture_monthly_record_def)
  have c: "fixture_files_count 16 = Some fixture_count_record"
    "32 \<le> length fixture_count_record"
    by (simp_all add: fixture_files_count_def fixture_count_record_def)
  have mv: "fixture_monthly_record ! 1 = 0x31" "fixture_monthly_record ! 16 = 0"
    "fixture_monthly_record ! 0 = 1"
    by (simp_all add: fixture_monthly_record_def)
  have cv: "fixture_count_record ! 1 = 0x32" "fixture_count_record ! 16 = 15"
    "fixture_count_record ! 0 = 1" "fixture_files_count 12 = None"
    by (simp_all add: fixture_count_record_def fixture_files_count_def)
  have s: "show_nat 15 = js ''15''"
    by (simp add: show_nat_numeral js_def)
  show ?thesis
    using first_product_record [of None fixture_files_monthly fixture_monthly_record
        "utc_date 1500001000000" "[]" None None None, OF _ m]
      first_product_record [of None fixture_files_count fixture_count_record
        "utc_date 1500001000000" "[]" None None None, OF _ c]
      m c mv cv
    by (simp add: s js_def)
qed

lemma trips_remaining_cases:
  assumes "isEnc \<noteq> Some True"
  shows "tripsRemaining (parseAthenaTicketData env data tagId info appId isEnc (Some files)) =
     (case files 16 of
        None \<Rightarrow> Trips (file12_value files)
      | Some file16 \<Rightarrow>
          if length file16 < 32 then Trips (file12_value files)
          else if (file16 ! 16 = 0 \<and> file16 ! 0 \<noteq> 0xff) \<or> file16 ! 1 = 0x31 then Unlimited
          else if file12_value files = 0 \<and> 0 < file16 ! 16 then Trips (unat (file16 ! 16))
          else Trips (file12_value files))"
proof (cases "files 16")
  case None
  then show ?thesis using products_short(1) [OF assms, of files] by simp
next
  case (Some file16)
  show ?thesis
  proof (cases "length file16 < 32")
    case True
    then show ?thesis using products_short(1) [OF assms, of files] Some by simp
  next
    case long: False
    then have l: "32 \<le> length file16" by simp
    show ?thesis
    proof (cases "(file16 ! 16 = 0 \<and> file16 ! 0 \<noteq> 0xff) \<or> file16 ! 1 = 0x31")
      case True
      then show ?thesis
        using products_period(1) [of isEnc files file16, OF assms Some l True] Some long
        by simp
    next
      case np: False
      show ?thesis
      proof (cases "0 < file16 ! 16")
        case True
        then show ?thesis
          using products_count(1) [of isEnc files file16, OF assms Some l np True] Some long np
          by simp
      next
        case False
        then show ?thesis
          using products_empty [of isEnc files file16, OF assms Some l np False] Some long np
          by simp
      qed
    qed
  qed
qed

text \<open>
  C7, as the code has it. The count that file 12 contributes is the unsigned little-endian
  integer of its bytes 0 to 3 when it has at least 4 bytes, and 0 when it is absent or
  shorter. The reported trips are that count, unless the first product record is a period
  pass ("unlimited"), or the count is 0 and the first product record has a positive trip
  count, which is then reported: the fall-back tests the count for 0, not the presence of
  file 12.
\<close>

theorem trips_remaining_value:
  assumes "isEnc \<noteq> Some True"
  shows "(\<forall>file12. files 12 = Some file12 \<and> 4 \<le> length file12 \<longrightarrow>
            file12_value files = le32 (file12 ! 0) (file12 ! 1) (file12 ! 2) (file12 ! 3)) \<and>
         (files 12 = None \<or> (\<exists>file12. files 12 = Some file12 \<and> length file12 < 4) \<longrightarrow>
            file12_value files = 0) \<and>
         tripsRemaining (parseAthenaTicketData env data tagId info appId isEnc (Some files)) =
           (case files 16 of
              None \<Rightarrow> Trips (file12_value files)
            | Some file16 \<Rightarrow>
                if length file16 < 32 then Trips (file12_value files)
                else if (file16 ! 16 = 0 \<and> file16 ! 0 \<noteq> 0xff) \<or> file16 ! 1 = 0x31
                  then Unlimited
                else if file12_value files = 0 \<and> 0 < file16 ! 16
                  then Trips (unat (file16 ! 16))
                else Trips (file12_value files))"
  using trips_remaining_cases [OF assms, of env data tagId info appId files]
  by (auto simp add: file12_value_def)

lemma fixture_count_record_bytes:
  "length fixture_count_record = 32"
  "fixture_count_record ! 0 = 1"
  "fixture_count_record ! 1 = 0x32"
  "fixture_count_record ! 16 = 15"
  by (simp_all add: fixture_count_record_def)

theorem trips_remaining_value_witness:
  "(None :: bool option) \<noteq> Some True \<and>
   fixture_files_seven12 12 = Some [7, 0, 0, 0] \<and>
   file12_value fixture_files_seven12 = 7 \<and>
   tripsRemaining (parseAthenaTicketData (utc_date 1500001000000) [] None None None None
      (Some fixture_files_seven12)) = Trips 7 \<and>
   fixture_files_count 12 = None \<and>
   tripsRemaining (parseAthenaTicketData (utc_date 1500001000000) [] None None None None
      (Some fixture_files_count)) = Trips 15"
proof -
  have a: "fixture_files_seven12 12 = Some [7, 0, 0, 0]"
    "fixture_files_seven12 16 = Some fixture_count_record"
    "fixture_files_count 12 = None"
    "fixture_files_count 16 = Some fixture_count_record"
    by (simp_all add: fixture_files_seven12_def fixture_files_count_def)
  have v: "file12_value fixture_files_seven12 = 7" "file12_value fixture_files_count = 0"
    by (simp_all add: file12_value_def a le32_def)
  show ?thesis
    using trips_remaining_value [of None fixture_files_seven12 "utc_date 1500001000000" "[]"
        None None None]
      trips_remaining_value [of None fixture_files_count "utc_date 1500001000000" "[]"
        None None None]
      fixture_count_record_bytes
    by (simp add: a v)
qed

text \<open>
  The specification lets the product's trip count stand in only when file 12 is absent or short.
  Here file 12 is present with four bytes that read 0, the first product record is
  count-based with 15 trips, and the decoder reports 15, not 0.
\<close>

theorem file12_zero_counterexample:
  "fixture_files_zero12 12 = Some [0, 0, 0, 0] \<and>
   4 \<le> length ([0, 0, 0, 0] :: byte list) \<and>
   le32 0 0 0 0 = 0 \<and>
   activeProduct (parseAthenaTicketData (utc_date 1500001000000) [] None None None None
      (Some fixture_files_zero12))
     = Some \<lparr> name = js ''15 trips'', status = None, validUntil = None, trips = Some 15 \<rparr> \<and>
   tripsRemaining (parseAthenaTicketData (utc_date 1500001000000) [] None None None None
      (Some fixture_files_zero12)) = Trips 15"
proof -
  have a: "fixture_files_zero12 12 = Some [0, 0, 0, 0]"
    "fixture_files_zero12 16 = Some fixture_count_record"
    by (simp_all add: fixture_files_zero12_def)
  have v: "file12_value fixture_files_zero12 = 0"
    by (simp add: file12_value_def a le32_def)
  have l: "32 \<le> length fixture_count_record"
    by (simp add: fixture_count_record_bytes)
  have np: "\<not> ((fixture_count_record ! 16 = 0 \<and> fixture_count_record ! 0 \<noteq> 0xff)
              \<or> fixture_count_record ! 1 = 0x31)"
    by (simp add: fixture_count_record_def)
  have pos: "0 < fixture_count_record ! 16"
    by (simp add: fixture_count_record_def)
  have s: "show_nat 15 = js ''15''"
    by (simp add: show_nat_numeral js_def)
  have n: "unat (fixture_count_record ! 16) = 15"
    by (simp add: fixture_count_record_def)
  have "tripsRemaining (parseAthenaTicketData (utc_date 1500001000000) [] None None None None
      (Some fixture_files_zero12)) = Trips 15"
    using products_count(1) [of None fixture_files_zero12 fixture_count_record
        "utc_date 1500001000000" "[]" None None None, OF _ a(2) l np pos]
    by (simp add: v n)
  moreover have "activeProduct (parseAthenaTicketData (utc_date 1500001000000) [] None None
      None None (Some fixture_files_zero12))
     = Some \<lparr> name = js ''15 trips'', status = None, validUntil = None, trips = Some 15 \<rparr>"
    using products_count(2) [of None fixture_files_zero12 fixture_count_record
        "utc_date 1500001000000" "[]" None None None, OF _ a(2) l np pos]
    by (simp add: n count_product_def s js_def)
  moreover have "le32 0 0 0 0 = 0"
    by (simp add: le32_def)
  ultimately show ?thesis using a(1) by simp
qed

lemma cardId_from_file2:
  assumes "isEnc \<noteq> Some True"
  shows "cardId (parseAthenaTicketData env data tagId info appId isEnc (Some files)) =
           cardId (parse_file2 files (initial_ticket tagId info appId False))"
  using assms
  by (simp add: parseAthenaTicketData_plain parse_file16_timestamps_frame
        parse_file16_products_frame parse_file12_frame parse_file4_frame)

lemma cardId_parse_file2:
  assumes "files 2 = Some file2" "20 \<le> length file2"
  shows "cardId (parse_file2 files t) =
           trim (group4 (toUpperCase (js ''3001 0100 '' @
             concat (map (\<lambda>b. padStart2 (toString16 b)) (take 5 (drop 12 file2))))))"
  using assms by (simp add: parse_file2_def Let_def)

lemma fixture_card_number:
  "trim (group4 (toUpperCase (js ''3001 0100 '' @
      concat (map (\<lambda>b. padStart2 (toString16 b)) [0x00, 0x02, 0x16, 0x39, 0x54]))))
   = js ''3001  010 0 00 0216 3954''"
  by (simp add: js_def toString16_def hex_digit_def padStart2_def toUpperCase_def trim_def
        is_js_space_def)

text \<open>
  C8 at the card of the source's own comment. File 2 holds \<open>00 02 16 39 54\<close> at bytes 12 to
  16; the comment gives "3001 0100 0216 3954" as the card id. The decoder appends the ten
  hexadecimal digits to a prefix that already holds two spaces and then cuts the whole
  text, spaces included, into runs of four characters.
\<close>

theorem card_id_of_comment_bytes:
  "fixture_files_card 2 = Some fixture_file2 \<and> 20 \<le> length fixture_file2 \<and>
   take 5 (drop 12 fixture_file2) = [0x00, 0x02, 0x16, 0x39, 0x54] \<and>
   cardId (parseAthenaTicketData (utc_date 1500001000000) [] (Some (js ''04A1B2C3'')) None
      None None (Some fixture_files_card)) = js ''3001  010 0 00 0216 3954'' \<and>
   cardId (parseAthenaTicketData (utc_date 1500001000000) [] (Some (js ''04A1B2C3'')) None
      None None (Some fixture_files_card)) \<noteq> js ''3001 0100 0002 1639 54'' \<and>
   cardId (parseAthenaTicketData (utc_date 1500001000000) [] (Some (js ''04A1B2C3'')) None
      None None (Some fixture_files_card)) \<noteq> js ''3001 0100 0216 3954''"
proof -
  have f: "fixture_files_card 2 = Some fixture_file2"
    by (simp add: fixture_files_card_def)
  have l: "20 \<le> length fixture_file2"
    by (simp add: fixture_file2_def)
  have b: "take 5 (drop 12 fixture_file2) = [0x00, 0x02, 0x16, 0x39, 0x54]"
    by (simp add: fixture_file2_def)
  have "cardId (parseAthenaTicketData (utc_date 1500001000000) [] (Some (js ''04A1B2C3'')) None
      None None (Some fixture_files_card)) = js ''3001  010 0 00 0216 3954''"
    by (simp only: cardId_from_file2 [of None, simplified] cardId_parse_file2 [of fixture_files_card fixture_file2, OF f l] b
          fixture_card_number)
  then show ?thesis using f l b by (simp add: js_def)
qed

section \<open>Tuple text parser: properties\<close>

lemma tuple_fixture_rows:
  \<open>parseTupleFormat (js ''(1, "a", None), (2, "b", 3)'') =
     [[js ''1'', js ''a'', []], [js ''2'', js ''b'', js ''3'']]\<close>
  by code_simp

lemma tuple_fixture_dropped_groups:
  \<open>parseTupleFormat (js ''(null, -4.5, "x(y"), (a b), () (7.), (-), ("unclosed) (8'') =
     [[[], js ''-4.5'', js ''x(y''], [js ''7.'']]\<close>
  by code_simp

lemma parseTupleFormat_no_empty_row: "[] \<notin> set (parseTupleFormat str)"
  by (induction str rule: parseTupleFormat.induct) (auto simp add: Let_def split: option.splits)

text \<open>
  C3. The text \<open>(1, "a", None), (2, "b", 3)\<close> parses to the two rows \<open>1, a, (empty)\<close> and
  \<open>2, b, 3\<close>: quoted tokens lose their quotes, numbers are kept as text, \<open>None\<close> becomes
  the empty string, in the order of the text. A second text shows \<open>null\<close>, a signed
  decimal, a quoted token holding a parenthesis, and groups without a token, which give
  no row; and no text at all yields an empty row.
\<close>

theorem tuple_parser_fixture:
  \<open>parseTupleFormat (js ''(1, "a", None), (2, "b", 3)'') =
     [[js ''1'', js ''a'', []], [js ''2'', js ''b'', js ''3'']] \<and>
   parseTupleFormat (js ''(null, -4.5, "x(y"), (a b), () (7.), (-), ("unclosed) (8'') =
     [[[], js ''-4.5'', js ''x(y''], [js ''7.'']] \<and>
   [] \<notin> set (parseTupleFormat str)\<close>
  using tuple_fixture_rows tuple_fixture_dropped_groups parseTupleFormat_no_empty_row [of str]
  by simp

section \<open>Transit response decoder: properties\<close>

lemma fetchAPI_returns: "\<exists>v. fetchAPI p endpoint param = Inr v"
  by (simp add: fetchAPI_def try_catch_def split: sum.splits)

lemma fetchAPI_caught:
  "fetchAPI_try p (buildUrl endpoint param) = Inl e \<Longrightarrow> fetchAPI p endpoint param = Inr (Rows [])"
  by (simp add: fetchAPI_def try_catch_def)

lemma fetchAPI_passes:
  "fetchAPI_try p (buildUrl endpoint param) = Inr v \<Longrightarrow> fetchAPI p endpoint param = Inr v"
  by (simp add: fetchAPI_def try_catch_def)

lemma decompressGzip_cases:
  "decompressGzip p data =
     (if has_gzip_magic data then
        (case ungzip p data of Inr result \<Rightarrow> Inr result | Inl e \<Rightarrow> decode_text p data)
      else decode_text p data)"
  by (simp add: decompressGzip_def try_catch_def split: sum.splits)

lemma fetchAPI_failures:
  "fetch p (buildUrl endpoint param) = Inl e \<Longrightarrow> fetchAPI p endpoint param = Inr (Rows [])"
  "fetch p (buildUrl endpoint param) = Inr r \<Longrightarrow> \<not> ok r \<Longrightarrow>
     fetchAPI p endpoint param = Inr (Rows [])"
  "fetch p (buildUrl endpoint param) = Inr r \<Longrightarrow> ok r \<Longrightarrow> arrayBuffer r = Inl e \<Longrightarrow>
     fetchAPI p endpoint param = Inr (Rows [])"
  "fetch p (buildUrl endpoint param) = Inr r \<Longrightarrow> ok r \<Longrightarrow> arrayBuffer r = Inr bytes \<Longrightarrow>
     decompressGzip p bytes = Inl e \<Longrightarrow> fetchAPI p endpoint param = Inr (Rows [])"
  "fetch p (buildUrl endpoint param) = Inr r \<Longrightarrow> ok r \<Longrightarrow> arrayBuffer r = Inr bytes \<Longrightarrow>
     decompressGzip p bytes = Inr None \<Longrightarrow> fetchAPI p endpoint param = Inr (Rows [])"
  by (simp_all add: fetchAPI_def fetchAPI_try_def try_catch_def)

lemma fetchAPI_of_text:
  assumes "fetch p (buildUrl endpoint param) = Inr r" "ok r" "arrayBuffer r = Inr bytes"
    and "decompressGzip p bytes = Inr (Some text)"
  shows "fetchAPI p endpoint param =
           Inr (if text = [] \<or> trim text = [] \<or> text = js ''null'' \<or> text = js ''[]''
                   \<or> text = js ''()''
                then Rows []
                else if startsWith (trim text) 91 \<or> startsWith (trim text) 123 then
                  (case JSON_parse p text of
                     Inr parsed \<Rightarrow> Json parsed
                   | Inl e \<Rightarrow> Rows (parseTupleFormat text))
                else Rows (parseTupleFormat text))"
  using assms
  by (simp add: fetchAPI_def fetchAPI_try_def try_catch_def Let_def split: sum.splits)

lemma fetchAPI_value_origin:
  assumes "fetchAPI p endpoint param = Inr v"
  shows "is_array v \<or>
         (\<exists>r bytes text parsed.
            fetch p (buildUrl endpoint param) = Inr r \<and> ok r \<and> arrayBuffer r = Inr bytes \<and>
            decompressGzip p bytes = Inr (Some text) \<and>
            (startsWith (trim text) 91 \<or> startsWith (trim text) 123) \<and>
            JSON_parse p text = Inr parsed \<and> v = Json parsed)"
proof (cases "fetch p (buildUrl endpoint param)")
  case (Inl e)
  then show ?thesis
    using assms fetchAPI_failures(1) [of p endpoint param e] by (auto simp add: is_array_def)
next
  case (Inr r)
  show ?thesis
  proof (cases "ok r")
    case False
    then show ?thesis
      using assms fetchAPI_failures(2) [of p endpoint param r] Inr by (auto simp add: is_array_def)
  next
    case True
    show ?thesis
    proof (cases "arrayBuffer r")
      case (Inl e)
      then show ?thesis
        using assms fetchAPI_failures(3) [of p endpoint param r e] Inr True
        by (auto simp add: is_array_def)
    next
      case bytes: (Inr bytes)
      show ?thesis
      proof (cases "decompressGzip p bytes")
        case (Inl e)
        then show ?thesis
          using assms fetchAPI_failures(4) [of p endpoint param r bytes e] Inr True bytes
          by (auto simp add: is_array_def)
      next
        case res: (Inr result)
        show ?thesis
        proof (cases result)
          case None
          then show ?thesis
            using assms fetchAPI_failures(5) [of p endpoint param r bytes] Inr True bytes res
            by (auto simp add: is_array_def)
        next
          case (Some text')
          then have d: "decompressGzip p bytes = Inr (Some text')"
            using res by simp
          show ?thesis
            using assms fetchAPI_of_text [OF Inr True bytes d] Inr True bytes d
            by (auto simp add: is_array_def split: if_splits sum.splits)
        qed
      qed
    qed
  qed
qed

lemma fixture_platform_fields:
  "fetch (fixture_platform body) url =
     Inr \<lparr> ok = True, http_status = 200, statusText = js ''OK'', arrayBuffer = Inr body \<rparr>"
  "ungzip (fixture_platform body) = fixture_ungzip"
  "utf8_decode (fixture_platform body) data = Inr (map ucast data)"
  "JSON_parse (fixture_platform body) = fixture_JSON_parse"
  by (simp_all add: fixture_platform_def)

lemma fixture_object_body:
  "fetchAPI (fixture_platform [0x7b, 0x7d]) (js ''getStopArrivals'') (Some (js ''1234''))
     = Inr (Json (JObject []))"
  by (simp add: fetchAPI_def fetchAPI_try_def try_catch_def fixture_platform_fields
        decompressGzip_def decode_text_def has_gzip_magic_def trim_def is_js_space_def
        startsWith_def fixture_JSON_parse_def js_def)

lemma fixture_bad_method_body:
  "ungzip (fixture_platform [0x1f, 0x8b, 0x00, 0x00]) [0x1f, 0x8b, 0x00, 0x00]
     = Inl (Exception (js ''unknown compression method''))"
  "decode_text (fixture_platform [0x1f, 0x8b, 0x00, 0x00]) [0x1f, 0x8b, 0x00, 0x00]
     = Inr (Some [0x1f, 0x8b, 0x00, 0x00])"
  "decompressGzip (fixture_platform [0x1f, 0x8b, 0x00, 0x00]) [0x1f, 0x8b, 0x00, 0x00]
     = Inr (Some [0x1f, 0x8b, 0x00, 0x00])"
  "fetchAPI (fixture_platform [0x1f, 0x8b, 0x00, 0x00]) (js ''getLines'') None = Inr (Rows [])"
  by (simp_all add: fetchAPI_def fetchAPI_try_def try_catch_def fixture_platform_fields
        decompressGzip_def decode_text_def has_gzip_magic_def trim_def is_js_space_def
        startsWith_def fixture_ungzip_def fixture_JSON_parse_def js_def tupleRegex_exec_def)

lemma fixture_truncated_body:
  "ungzip (fixture_platform [0x1f, 0x8b, 0x08]) [0x1f, 0x8b, 0x08] = Inr None"
  "decompressGzip (fixture_platform [0x1f, 0x8b, 0x08]) [0x1f, 0x8b, 0x08] = Inr None"
  "fetchAPI (fixture_platform [0x1f, 0x8b, 0x08]) (js ''getLines'') None = Inr (Rows [])"
  by (simp_all add: fetchAPI_def fetchAPI_try_def try_catch_def fixture_platform_fields
        decompressGzip_def decode_text_def has_gzip_magic_def fixture_ungzip_def)

lemma fixture_tuple_body:
  \<open>map ucast [0x28, 0x31, 0x2c, 0x20, 0x22, 0x61, 0x22, 0x29 :: byte] = js ''(1, "a")''\<close>
  \<open>fetchAPI (fixture_platform [0x28, 0x31, 0x2c, 0x20, 0x22, 0x61, 0x22, 0x29])
      (js ''getLines'') None = Inr (Rows [[js ''1'', js ''a'']])\<close>
proof -
  show m: \<open>map ucast [0x28, 0x31, 0x2c, 0x20, 0x22, 0x61, 0x22, 0x29 :: byte] = js ''(1, "a")''\<close>
    by (simp add: js_def)
  have t: \<open>parseTupleFormat (js ''(1, "a")'') = [[js ''1'', js ''a'']]\<close>
    by code_simp
  have d: \<open>decompressGzip (fixture_platform [0x28, 0x31, 0x2c, 0x20, 0x22, 0x61, 0x22, 0x29])
      [0x28, 0x31, 0x2c, 0x20, 0x22, 0x61, 0x22, 0x29] = Inr (Some (js ''(1, "a")''))\<close>
    by (simp add: decompressGzip_cases has_gzip_magic_def decode_text_def
          fixture_platform_fields js_def)
  have e: \<open>\<not> (js ''(1, "a")'' = [] \<or> trim (js ''(1, "a")'') = [] \<or>
      js ''(1, "a")'' = js ''null'' \<or> js ''(1, "a")'' = js ''[]'' \<or> js ''(1, "a")'' = js ''()'')\<close>
    \<open>\<not> (startsWith (trim (js ''(1, "a")'')) 91 \<or> startsWith (trim (js ''(1, "a")'')) 123)\<close>
    by (simp_all add: js_def trim_def is_js_space_def startsWith_def)
  show \<open>fetchAPI (fixture_platform [0x28, 0x31, 0x2c, 0x20, 0x22, 0x61, 0x22, 0x29])
      (js ''getLines'') None = Inr (Rows [[js ''1'', js ''a'']])\<close>
    using fetchAPI_of_text [OF fixture_platform_fields(1) _ _ d, of "js ''getLines''" None] e t
    by simp
qed

text \<open>
  C2, as the code has it. For every platform, endpoint and parameter, and so for every
  network outcome and every byte buffer, \<open>fetchAPI\<close> returns and does not throw. It gives
  the empty array when the request is rejected, the response is not ok, the buffer cannot
  be read, \<open>decompressGzip\<close> throws or has no text to give, and, as every exception of the
  \<open>try\<close> block, these are caught at the boundary. For a text it gives the empty array when
  the text is empty, white space, or one of \<open>null\<close>, \<open>[]\<close> and \<open>()\<close>; else, when the
  trimmed text begins with \<open>[\<close> or \<open>{\<close> and \<open>JSON.parse\<close> accepts the text, the parsed
  value as it is; else the rows of the tuple parser. So the result is an array, or such a
  parsed value. \<open>decompressGzip\<close> gives what \<open>pako.ungzip\<close> returned for a buffer with the
  gzip magic number, the UTF-8 decoding of the raw buffer when \<open>pako.ungzip\<close> throws, and
  the UTF-8 decoding for any other buffer.
\<close>

theorem fetchAPI_never_throws:
  "(\<exists>v. fetchAPI p endpoint param = Inr v) \<and>
   (\<forall>e. fetchAPI_try p (buildUrl endpoint param) = Inl e \<longrightarrow>
      fetchAPI p endpoint param = Inr (Rows [])) \<and>
   (\<forall>e. fetch p (buildUrl endpoint param) = Inl e \<longrightarrow>
      fetchAPI p endpoint param = Inr (Rows [])) \<and>
   (\<forall>r. fetch p (buildUrl endpoint param) = Inr r \<and> \<not> ok r \<longrightarrow>
      fetchAPI p endpoint param = Inr (Rows [])) \<and>
   (\<forall>r e. fetch p (buildUrl endpoint param) = Inr r \<and> ok r \<and> arrayBuffer r = Inl e \<longrightarrow>
      fetchAPI p endpoint param = Inr (Rows [])) \<and>
   (\<forall>r bytes e. fetch p (buildUrl endpoint param) = Inr r \<and> ok r \<and>
        arrayBuffer r = Inr bytes \<and> decompressGzip p bytes = Inl e \<longrightarrow>
      fetchAPI p endpoint param = Inr (Rows [])) \<and>
   (\<forall>r bytes. fetch p (buildUrl endpoint param) = Inr r \<and> ok r \<and>
        arrayBuffer r = Inr bytes \<and> decompressGzip p bytes = Inr None \<longrightarrow>
      fetchAPI p endpoint param = Inr (Rows [])) \<and>
   (\<forall>r bytes text. fetch p (buildUrl endpoint param) = Inr r \<and> ok r \<and>
        arrayBuffer r = Inr bytes \<and> decompressGzip p bytes = Inr (Some text) \<longrightarrow>
      fetchAPI p endpoint param =
        Inr (if text = [] \<or> trim text = [] \<or> text = js ''null'' \<or> text = js ''[]''
                \<or> text = js ''()''
             then Rows []
             else if startsWith (trim text) 91 \<or> startsWith (trim text) 123 then
               (case JSON_parse p text of
                  Inr parsed \<Rightarrow> Json parsed
                | Inl e \<Rightarrow> Rows (parseTupleFormat text))
             else Rows (parseTupleFormat text))) \<and>
   (\<forall>v. fetchAPI p endpoint param = Inr v \<longrightarrow>
      is_array v \<or>
      (\<exists>r bytes text parsed.
         fetch p (buildUrl endpoint param) = Inr r \<and> ok r \<and> arrayBuffer r = Inr bytes \<and>
         decompressGzip p bytes = Inr (Some text) \<and>
         (startsWith (trim text) 91 \<or> startsWith (trim text) 123) \<and>
         JSON_parse p text = Inr parsed \<and> v = Json parsed)) \<and>
   (\<forall>data. decompressGzip p data =
      (if has_gzip_magic data then
         (case ungzip p data of Inr result \<Rightarrow> Inr result | Inl e \<Rightarrow> decode_text p data)
       else decode_text p data)) \<and>
   (\<forall>data. decode_text p data =
      (case utf8_decode p data of Inl e \<Rightarrow> Inl e | Inr text \<Rightarrow> Inr (Some text)))"
proof (intro conjI allI impI)
  show "\<exists>v. fetchAPI p endpoint param = Inr v"
    by (rule fetchAPI_returns)
next
  fix e
  assume "fetchAPI_try p (buildUrl endpoint param) = Inl e"
  then show "fetchAPI p endpoint param = Inr (Rows [])"
    by (rule fetchAPI_caught)
next
  fix e
  assume "fetch p (buildUrl endpoint param) = Inl e"
  then show "fetchAPI p endpoint param = Inr (Rows [])"
    by (rule fetchAPI_failures(1))
next
  fix r
  assume "fetch p (buildUrl endpoint param) = Inr r \<and> \<not> ok r"
  then show "fetchAPI p endpoint param = Inr (Rows [])"
    using fetchAPI_failures(2) [of p endpoint param r] by blast
next
  fix r e
  assume "fetch p (buildUrl endpoint param) = Inr r \<and> ok r \<and> arrayBuffer r = Inl e"
  then show "fetchAPI p endpoint param = Inr (Rows [])"
    using fetchAPI_failures(3) [of p endpoint param r e] by blast
next
  fix r bytes e
  assume "fetch p (buildUrl endpoint param) = Inr r \<and> ok r \<and>
        arrayBuffer r = Inr bytes \<and> decompressGzip p bytes = Inl e"
  then show "fetchAPI p endpoint param = Inr (Rows [])"
    using fetchAPI_failures(4) [of p endpoint param r bytes e] by blast
next
  fix r bytes
  assume "fetch p (buildUrl endpoint param) = Inr r \<and> ok r \<and>
        arrayBuffer r = Inr bytes \<and> decompressGzip p bytes = Inr None"
  then show "fetchAPI p endpoint param = Inr (Rows [])"
    using fetchAPI_failures(5) [of p endpoint param r bytes] by blast
next
  fix r bytes str
  assume "fetch p (buildUrl endpoint param) = Inr r \<and> ok r \<and>
        arrayBuffer r = Inr bytes \<and> decompressGzip p bytes = Inr (Some str)"
  then show "fetchAPI p endpoint param =
        Inr (if str = [] \<or> trim str = [] \<or> str = js ''null'' \<or> str = js ''[]''
                \<or> str = js ''()''
             then Rows []
             else if startsWith (trim str) 91 \<or> startsWith (trim str) 123 then
               (case JSON_parse p str of
                  Inr parsed \<Rightarrow> Json parsed
                | Inl e \<Rightarrow> Rows (parseTupleFormat str))
             else Rows (parseTupleFormat str))"
    using fetchAPI_of_text [of p endpoint param r bytes str] by blast
next
  fix v
  assume "fetchAPI p endpoint param = Inr v"
  then show "is_array v \<or>
      (\<exists>r bytes text parsed.
         fetch p (buildUrl endpoint param) = Inr r \<and> ok r \<and> arrayBuffer r = Inr bytes \<and>
         decompressGzip p bytes = Inr (Some text) \<and>
         (startsWith (trim text) 91 \<or> startsWith (trim text) 123) \<and>
         JSON_parse p text = Inr parsed \<and> v = Json parsed)"
    by (rule fetchAPI_value_origin)
next
  fix data
  show "decompressGzip p data =
      (if has_gzip_magic data then
         (case ungzip p data of Inr result \<Rightarrow> Inr result | Inl e \<Rightarrow> decode_text p data)
       else decode_text p data)"
    by (rule decompressGzip_cases)
next
  fix data
  show "decode_text p data =
      (case utf8_decode p data of Inl e \<Rightarrow> Inl e | Inr text \<Rightarrow> Inr (Some text))"
    by (rule decode_text_def)
qed

theorem fetchAPI_never_throws_witness:
  \<open>has_gzip_magic [0x1f, 0x8b, 0x00, 0x00] \<and>
   ungzip (fixture_platform [0x1f, 0x8b, 0x00, 0x00]) [0x1f, 0x8b, 0x00, 0x00]
     = Inl (Exception (js ''unknown compression method'')) \<and>
   decompressGzip (fixture_platform [0x1f, 0x8b, 0x00, 0x00]) [0x1f, 0x8b, 0x00, 0x00]
     = decode_text (fixture_platform [0x1f, 0x8b, 0x00, 0x00]) [0x1f, 0x8b, 0x00, 0x00] \<and>
   decompressGzip (fixture_platform [0x1f, 0x8b, 0x00, 0x00]) [0x1f, 0x8b, 0x00, 0x00]
     = Inr (Some [0x1f, 0x8b, 0x00, 0x00]) \<and>
   fetchAPI (fixture_platform [0x1f, 0x8b, 0x00, 0x00]) (js ''getLines'') None
     = Inr (Rows []) \<and>
   ungzip (fixture_platform [0x1f, 0x8b, 0x08]) [0x1f, 0x8b, 0x08] = Inr None \<and>
   decompressGzip (fixture_platform [0x1f, 0x8b, 0x08]) [0x1f, 0x8b, 0x08] = Inr None \<and>
   fetchAPI (fixture_platform [0x1f, 0x8b, 0x08]) (js ''getLines'') None = Inr (Rows []) \<and>
   map ucast [0x28, 0x31, 0x2c, 0x20, 0x22, 0x61, 0x22, 0x29 :: byte] = js ''(1, "a")'' \<and>
   fetchAPI (fixture_platform [0x28, 0x31, 0x2c, 0x20, 0x22, 0x61, 0x22, 0x29])
      (js ''getLines'') None = Inr (Rows [[js ''1'', js ''a'']]) \<and>
   is_array (Rows [[js ''1'', js ''a'']])\<close>
  using fetchAPI_never_throws [of "fixture_platform [0x1f, 0x8b, 0x00, 0x00]" "js ''getLines''"
      None]
    fixture_bad_method_body fixture_truncated_body fixture_tuple_body
  by (simp add: is_array_def has_gzip_magic_def)

text \<open>
  The specification says an array is returned. A body that is the text \<open>{}\<close> is handed to
  \<open>JSON.parse\<close>, and the object it gives is returned as it is.
\<close>

theorem fetchAPI_object_counterexample:
  "fetchAPI (fixture_platform [0x7b, 0x7d]) (js ''getStopArrivals'') (Some (js ''1234''))
     = Inr (Json (JObject [])) \<and>
   \<not> is_array (Json (JObject []))"
  using fixture_object_body by (simp add: is_array_def)

section \<open>Nearest stops: properties\<close>


































end
